theory Spec2Isabelle
  imports Main
begin

section \<open>JavaScript values\<close>

text \<open>
  The handlers of \<^verbatim>\<open>src/language-js/comments.js\<close> read syntax-tree nodes and comments
  as plain JavaScript objects. An object carries an identity (objects are compared with
  \<^verbatim>\<open>===\<close> by reference) and its properties; an absent property reads as
  \<^verbatim>\<open>undefined\<close>. Arrays are containers only: the source never compares two arrays, so
  the model gives them no identity.
\<close>

datatype jsval =
    Undefined
  | Null
  | JBool bool
  | JNum int
  | JStr string
  | JArr "jsval list"
  | JObj nat "(string \<times> jsval) list"

datatype error = TypeError

fun truthy :: "jsval \<Rightarrow> bool" where
  "truthy Undefined = False"
| "truthy Null = False"
| "truthy (JBool b) = b"
| "truthy (JNum n) = (n \<noteq> 0)"
| "truthy (JStr s) = (s \<noteq> [])"
| "truthy (JArr xs) = True"
| "truthy (JObj i ps) = True"

text \<open>\<^verbatim>\<open>a === b\<close>: objects by identity, primitives by value.\<close>

definition strict_eq :: "jsval \<Rightarrow> jsval \<Rightarrow> bool" where
  "strict_eq a b =
     (case a of
        JObj i ps \<Rightarrow> (case b of JObj j qs \<Rightarrow> i = j | _ \<Rightarrow> False)
      | JArr xs \<Rightarrow> False
      | _ \<Rightarrow> (case b of JObj j qs \<Rightarrow> False | JArr ys \<Rightarrow> False | _ \<Rightarrow> a = b))"

definition lookup :: "(string \<times> jsval) list \<Rightarrow> string \<Rightarrow> jsval" where
  "lookup ps k = (case map_of ps k of None \<Rightarrow> Undefined | Some v \<Rightarrow> v)"

text \<open>\<^verbatim>\<open>x.k\<close>: reading a property of \<^verbatim>\<open>undefined\<close> or \<^verbatim>\<open>null\<close> throws.\<close>

fun get :: "jsval \<Rightarrow> string \<Rightarrow> error + jsval" where
  "get Undefined k = Inl TypeError"
| "get Null k = Inl TypeError"
| "get (JObj i ps) k = Inr (lookup ps k)"
| "get (JArr xs) k = Inr (if k = ''length'' then JNum (int (length xs)) else Undefined)"
| "get (JStr s) k = Inr (if k = ''length'' then JNum (int (length s)) else Undefined)"
| "get (JBool b) k = Inr Undefined"
| "get (JNum n) k = Inr Undefined"

text \<open>\<^verbatim>\<open>x?.k\<close>: \<^verbatim>\<open>undefined\<close> when \<^verbatim>\<open>x\<close> is \<^verbatim>\<open>undefined\<close> or \<^verbatim>\<open>null\<close>.\<close>

definition opt :: "jsval \<Rightarrow> string \<Rightarrow> jsval" where
  "opt x k = (case get x k of Inl e \<Rightarrow> Undefined | Inr v \<Rightarrow> v)"

text \<open>\<^verbatim>\<open>x[0]\<close>.\<close>

fun index0 :: "jsval \<Rightarrow> error + jsval" where
  "index0 Undefined = Inl TypeError"
| "index0 Null = Inl TypeError"
| "index0 (JArr xs) = Inr (case xs of [] \<Rightarrow> Undefined | x # rest \<Rightarrow> x)"
| "index0 (JStr s) = Inr (case s of [] \<Rightarrow> Undefined | c # rest \<Rightarrow> JStr [c])"
| "index0 (JObj i ps) = Inr (lookup ps ''0'')"
| "index0 (JBool b) = Inr Undefined"
| "index0 (JNum n) = Inr Undefined"

subsection \<open>Exceptions as values\<close>

definition bindE :: "error + 'a \<Rightarrow> ('a \<Rightarrow> error + 'b) \<Rightarrow> error + 'b" where
  "bindE r f = (case r of Inl e \<Rightarrow> Inl e | Inr v \<Rightarrow> f v)"

definition mapE :: "('a \<Rightarrow> 'b) \<Rightarrow> error + 'a \<Rightarrow> error + 'b" where
  "mapE f r = (case r of Inl e \<Rightarrow> Inl e | Inr v \<Rightarrow> Inr (f v))"

text \<open>
  \<^verbatim>\<open>a && b\<close> and \<^verbatim>\<open>a || b\<close> on conditions that may throw: the right operand is
  evaluated only when the left one does not decide.
\<close>

definition andE :: "error + bool \<Rightarrow> error + bool \<Rightarrow> error + bool" where
  "andE a b = (case a of Inl e \<Rightarrow> Inl e | Inr x \<Rightarrow> (if x then b else Inr False))"

definition orE :: "error + bool \<Rightarrow> error + bool \<Rightarrow> error + bool" where
  "orE a b = (case a of Inl e \<Rightarrow> Inl e | Inr x \<Rightarrow> (if x then Inr True else b))"

definition ifE :: "error + bool \<Rightarrow> error + 'a \<Rightarrow> error + 'a \<Rightarrow> error + 'a" where
  "ifE c a b = (case c of Inl e \<Rightarrow> Inl e | Inr x \<Rightarrow> (if x then a else b))"

text \<open>\<^verbatim>\<open>x.k1.k2\<close> and \<^verbatim>\<open>x.k1.k2.k3\<close>.\<close>

definition get2 :: "jsval \<Rightarrow> string \<Rightarrow> string \<Rightarrow> error + jsval" where
  "get2 x k1 k2 = bindE (get x k1) (\<lambda>v. get v k2)"

definition get3 :: "jsval \<Rightarrow> string \<Rightarrow> string \<Rightarrow> string \<Rightarrow> error + jsval" where
  "get3 x k1 k2 k3 = bindE (get2 x k1 k2) (\<lambda>v. get v k3)"

section \<open>The attachment store\<close>

datatype role = Leading | Trailing | Dangling

record attachment =
  owner :: jsval
  arole :: role
  attached :: jsval
  marker :: "jsval option"

text \<open>
  The handlers never read what they write (\<^verbatim>\<open>node.comments\<close>,
  \<^verbatim>\<open>comment.leading\<close>, \<^verbatim>\<open>comment.trailing\<close>, \<^verbatim>\<open>comment.marker\<close>,
  \<^verbatim>\<open>node.prettierIgnore\<close>, \<^verbatim>\<open>comment.unignore\<close>), so the mutable part of the tree is
  kept in a store beside the immutable nodes: the attachments in the order they were
  committed, the nodes flagged \<^verbatim>\<open>prettierIgnore\<close> and the comments flagged
  \<^verbatim>\<open>unignore\<close>.
\<close>

record store =
  attachments :: "attachment list"
  prettierIgnore :: "jsval list"
  unignore :: "jsval list"

fun is_object :: "jsval \<Rightarrow> bool" where
  "is_object (JObj i ps) = True"
| "is_object (JArr xs) = True"
| "is_object v = False"

text \<open>
  Modelled from the spec: \<^verbatim>\<open>addLeadingComment\<close>, \<^verbatim>\<open>addTrailingComment\<close> and
  \<^verbatim>\<open>addDanglingComment\<close> of \<^verbatim>\<open>../common/util.js\<close> are not among the sources. The spec's
  Attachment Store holds "per node, ordered sequences of leading/trailing/dangling
  comment references (comments may carry secondary marker tags)", and "the sole mutation
  is appending comment references to a node's attachment lists". An attachment decision
  is "(comment, owner node, role, optional marker)": it needs an owner and a comment, so
  appending to the lists of \<^verbatim>\<open>undefined\<close> (or of a primitive value, under
  \<^verbatim>\<open>"use strict"\<close>) throws.
\<close>

definition commit :: "store \<Rightarrow> jsval \<Rightarrow> role \<Rightarrow> jsval \<Rightarrow> jsval option \<Rightarrow> store" where
  "commit s node r comment m =
     s\<lparr>attachments := attachments s @
         [\<lparr>owner = node, arole = r, attached = comment, marker = m\<rparr>]\<rparr>"

definition addCommentHelper ::
  "role \<Rightarrow> jsval \<Rightarrow> jsval \<Rightarrow> jsval option \<Rightarrow> store \<Rightarrow> error + store" where
  "addCommentHelper r node comment m s =
     (if is_object node \<and> is_object comment
      then Inr (commit s node r comment m)
      else Inl TypeError)"

definition addLeadingComment :: "jsval \<Rightarrow> jsval \<Rightarrow> store \<Rightarrow> error + store" where
  "addLeadingComment node comment s = addCommentHelper Leading node comment None s"

definition addTrailingComment :: "jsval \<Rightarrow> jsval \<Rightarrow> store \<Rightarrow> error + store" where
  "addTrailingComment node comment s = addCommentHelper Trailing node comment None s"

definition addDanglingComment :: "jsval \<Rightarrow> jsval \<Rightarrow> jsval \<Rightarrow> store \<Rightarrow> error + store" where
  "addDanglingComment node comment m s =
     addCommentHelper Dangling node comment (if truthy m then Some m else None) s"

text \<open>\<^verbatim>\<open>node.prettierIgnore = true\<close> and \<^verbatim>\<open>comment.unignore = true\<close>.\<close>

definition set_prettierIgnore :: "jsval \<Rightarrow> store \<Rightarrow> error + store" where
  "set_prettierIgnore node s =
     (if is_object node then Inr (s\<lparr>prettierIgnore := node # prettierIgnore s\<rparr>)
      else Inl TypeError)"

definition set_unignore :: "jsval \<Rightarrow> store \<Rightarrow> error + store" where
  "set_unignore comment s =
     (if is_object comment then Inr (s\<lparr>unignore := comment # unignore s\<rparr>)
      else Inl TypeError)"

section \<open>The handler context and the module's imports\<close>

text \<open>
  The \<^verbatim>\<open>CommentContext\<close> of the source's type comment (its property
  \<^verbatim>\<open>text\<close> is the field \<open>source_text\<close>).
\<close>

record ctx =
  comment :: jsval
  precedingNode :: jsval
  enclosingNode :: jsval
  followingNode :: jsval
  source_text :: string
  options :: jsval
  ast :: jsval
  isLastComment :: bool

text \<open>
  The functions and constants the module imports from \<^verbatim>\<open>../common/util.js\<close>,
  \<^verbatim>\<open>./utils/index.js\<close>, \<^verbatim>\<open>./loc.js\<close>, \<^verbatim>\<open>./utils/is-block-comment.js\<close> and
  \<^verbatim>\<open>./options.js\<close> are not among the sources. The handlers take them as parameters:
  every theorem about a handler holds for all of them. They are taken as functions of
  their arguments that return normally; \<open>isPrettierIgnoreComment\<close> may also read the
  flags of the store. \<open>required_options\<close> is the module-level constant
  \<^verbatim>\<open>const options = require("./options.js")\<close> of line 34, which is not the
  \<open>options\<close> of the context.
\<close>

record env =
  getLast :: "jsval \<Rightarrow> jsval"
  hasNewline :: "string \<Rightarrow> nat \<Rightarrow> bool"
  getNextNonSpaceNonCommentCharacterIndexWithStartIndex :: "string \<Rightarrow> nat \<Rightarrow> nat option"
  getNextNonSpaceNonCommentCharacter :: "string \<Rightarrow> jsval \<Rightarrow> (jsval \<Rightarrow> nat) \<Rightarrow> string"
  hasNewlineInRange :: "string \<Rightarrow> nat \<Rightarrow> nat \<Rightarrow> bool"
  getNextNonSpaceNonCommentCharacterIndex :: "string \<Rightarrow> jsval \<Rightarrow> (jsval \<Rightarrow> nat) \<Rightarrow> nat option"
  isNonEmptyArray :: "jsval \<Rightarrow> bool"
  getFunctionParameters :: "jsval \<Rightarrow> jsval list"
  isPrettierIgnoreComment :: "store \<Rightarrow> jsval \<Rightarrow> bool"
  isCallLikeExpression :: "jsval \<Rightarrow> bool"
  getCallArguments :: "jsval \<Rightarrow> jsval list"
  isCallExpression :: "jsval \<Rightarrow> bool"
  isMemberExpression :: "jsval \<Rightarrow> bool"
  isObjectProperty :: "jsval \<Rightarrow> bool"
  isLineComment :: "jsval \<Rightarrow> bool"
  markerForIfWithoutBlockAndSameLineComment :: jsval
  locStart :: "jsval \<Rightarrow> nat"
  locEnd :: "jsval \<Rightarrow> nat"
  isBlockComment :: "jsval \<Rightarrow> bool"
  required_options :: jsval

section \<open>The handlers\<close>

text \<open>
  A handler returns whether it claimed the comment, with the store it leaves, or throws.
  \<open>eq_str v t\<close> is \<^verbatim>\<open>v === "t"\<close>; \<open>set_has ts v\<close> is \<^verbatim>\<open>ts.has(v)\<close> for a
  \<^verbatim>\<open>Set\<close> of strings.
\<close>

type_synonym handler = "env \<Rightarrow> ctx \<Rightarrow> store \<Rightarrow> error + (bool \<times> store)"

definition declined :: "store \<Rightarrow> error + (bool \<times> store)" where
  "declined s = Inr (False, s)"

definition claimed :: "error + store \<Rightarrow> error + (bool \<times> store)" where
  "claimed r = mapE (\<lambda>s'. (True, s')) r"

definition eq_str :: "jsval \<Rightarrow> string \<Rightarrow> bool" where
  "eq_str v t = strict_eq v (JStr t)"

definition set_has :: "string list \<Rightarrow> jsval \<Rightarrow> bool" where
  "set_has ts v = (case v of JStr t \<Rightarrow> t \<in> set ts | _ \<Rightarrow> False)"

text \<open>
  \<^verbatim>\<open>arr.find(({ type }) => type !== "EmptyStatement")\<close>: destructuring
  \<^verbatim>\<open>undefined\<close> or \<^verbatim>\<open>null\<close> throws, and so does calling \<^verbatim>\<open>find\<close> on a value
  that is not an array.
\<close>

fun find_non_empty :: "jsval list \<Rightarrow> error + jsval" where
  "find_non_empty [] = Inr Undefined"
| "find_non_empty (x # xs) =
     (if x = Undefined \<or> x = Null then Inl TypeError
      else if \<not> eq_str (opt x ''type'') ''EmptyStatement'' then Inr x
      else find_non_empty xs)"

definition array_find_non_empty :: "jsval \<Rightarrow> error + jsval" where
  "array_find_non_empty arr =
     (case arr of JArr xs \<Rightarrow> find_non_empty xs | _ \<Rightarrow> Inl TypeError)"

definition addBlockStatementFirstComment :: "jsval \<Rightarrow> jsval \<Rightarrow> store \<Rightarrow> error + store" where
  "addBlockStatementFirstComment node c s =
     bindE (get node ''body'') (\<lambda>body.
     bindE (if truthy body then Inr body else get node ''properties'') (\<lambda>arr.
     bindE (array_find_non_empty arr) (\<lambda>firstNonEmptyNode.
       if truthy firstNonEmptyNode
       then addLeadingComment firstNonEmptyNode c s
       else addDanglingComment node c Undefined s)))"

definition addBlockOrNotComment :: "jsval \<Rightarrow> jsval \<Rightarrow> store \<Rightarrow> error + store" where
  "addBlockOrNotComment node c s =
     bindE (get node ''type'') (\<lambda>t.
       if eq_str t ''BlockStatement''
       then addBlockStatementFirstComment node c s
       else addLeadingComment node c s)"

subsection \<open>Type-cast comments\<close>

text \<open>
  \<^verbatim>\<open>/@type\b/.test(comment.value)\<close>: the regular expression matches where the five
  characters \<^verbatim>\<open>@type\<close> are followed by the end of the string or by a character that
  is not a word character. \<^verbatim>\<open>test\<close> converts its argument to a string first.
\<close>

definition is_word_char :: "char \<Rightarrow> bool" where
  "is_word_char ch =
     (let n = (of_char ch :: nat)
      in (48 \<le> n \<and> n \<le> 57) \<or> (65 \<le> n \<and> n \<le> 90) \<or> n = 95 \<or> (97 \<le> n \<and> n \<le> 122))"

definition at_type_here :: "string \<Rightarrow> bool" where
  "at_type_here str =
     (take 5 str = ''@type'' \<and>
      (case drop 5 str of [] \<Rightarrow> True | ch # rest \<Rightarrow> \<not> is_word_char ch))"

fun regex_at_type_b :: "string \<Rightarrow> bool" where
  "regex_at_type_b [] = False"
| "regex_at_type_b (ch # rest) = (at_type_here (ch # rest) \<or> regex_at_type_b rest)"

function show_nat :: "nat \<Rightarrow> string" where
  "show_nat n =
     (if n < 10 then [char_of (48 + n)]
      else show_nat (n div 10) @ [char_of (48 + n mod 10)])"
  by pat_completeness auto
termination
  by (relation "measure id") auto

definition show_int :: "int \<Rightarrow> string" where
  "show_int i = (if i < 0 then CHR ''-'' # show_nat (nat (- i)) else show_nat (nat i))"

fun join_comma :: "string list \<Rightarrow> string" where
  "join_comma [] = []"
| "join_comma [x] = x"
| "join_comma (x # y # rest) = x @ '','' @ join_comma (y # rest)"

fun js_to_string :: "jsval \<Rightarrow> string" where
  "js_to_string Undefined = ''undefined''"
| "js_to_string Null = ''null''"
| "js_to_string (JBool b) = (if b then ''true'' else ''false'')"
| "js_to_string (JNum n) = show_int n"
| "js_to_string (JStr str) = str"
| "js_to_string (JArr xs) =
     join_comma (map (\<lambda>x. if x = Undefined \<or> x = Null then [] else js_to_string x) xs)"
| "js_to_string (JObj i ps) = ''[object Object]''"

definition isTypeCastComment :: "env \<Rightarrow> jsval \<Rightarrow> error + bool" where
  "isTypeCastComment E c =
     andE (Inr (isBlockComment E c))
    (andE (bindE (get c ''value'') (\<lambda>v. mapE (\<lambda>v0. eq_str v0 ''*'') (index0 v)))
          (mapE (\<lambda>v. regex_at_type_b (js_to_string v)) (get c ''value'')))"

definition handleClosureTypeCastComments :: handler where
  "handleClosureTypeCastComments E ctx s =
     ifE (andE (Inr (truthy (followingNode ctx))) (isTypeCastComment E (comment ctx)))
       (claimed (addLeadingComment (followingNode ctx) (comment ctx) s))
       (declined s)"

subsection \<open>If, while and try statements\<close>

definition handleIfStatementComments :: handler where
  "handleIfStatementComments E ctx s =
     (if \<not> eq_str (opt (enclosingNode ctx) ''type'') ''IfStatement'' \<or> \<not> truthy (followingNode ctx)
      then declined s
      else if getNextNonSpaceNonCommentCharacter E (source_text ctx) (comment ctx) (locEnd E) = '')''
      then claimed (addTrailingComment (precedingNode ctx) (comment ctx) s)
      else
        ifE (andE (mapE (strict_eq (precedingNode ctx)) (get (enclosingNode ctx) ''consequent''))
                  (mapE (strict_eq (followingNode ctx)) (get (enclosingNode ctx) ''alternate'')))
          (claimed
            (ifE (andE (mapE (\<lambda>t. eq_str t ''BlockStatement'') (get (precedingNode ctx) ''type''))
                       (mapE (\<lambda>b. \<not> truthy b) (get (required_options E) ''breakBeforeElse'')))
               (addTrailingComment (precedingNode ctx) (comment ctx) s)
               (bindE (orE (mapE (\<lambda>t. eq_str t ''SingleLine'') (get (comment ctx) ''type''))
                           (bindE (get3 (comment ctx) ''loc'' ''start'' ''line'') (\<lambda>l1.
                              mapE (strict_eq l1) (get3 (comment ctx) ''loc'' ''end'' ''line''))))
                  (\<lambda>isSingleLineComment.
                bindE (bindE (get3 (comment ctx) ''loc'' ''start'' ''line'') (\<lambda>l1.
                         mapE (strict_eq l1) (get3 (precedingNode ctx) ''loc'' ''start'' ''line'')))
                  (\<lambda>isSameLineComment.
                  if isSingleLineComment \<and> isSameLineComment
                  then addDanglingComment (precedingNode ctx) (comment ctx)
                         (markerForIfWithoutBlockAndSameLineComment E) s
                  else addDanglingComment (enclosingNode ctx) (comment ctx) Undefined s)))))
          (bindE (get (followingNode ctx) ''type'') (\<lambda>t.
             if eq_str t ''BlockStatement''
             then claimed (addBlockStatementFirstComment (followingNode ctx) (comment ctx) s)
             else if eq_str t ''IfStatement''
             then bindE (get (followingNode ctx) ''consequent'') (\<lambda>cons.
                    claimed (addBlockOrNotComment cons (comment ctx) s))
             else
               ifE (mapE (\<lambda>cons. strict_eq cons (followingNode ctx))
                      (get (enclosingNode ctx) ''consequent''))
                 (claimed (addLeadingComment (followingNode ctx) (comment ctx) s))
                 (declined s))))"

definition handleWhileComments :: handler where
  "handleWhileComments E ctx s =
     (if \<not> eq_str (opt (enclosingNode ctx) ''type'') ''WhileStatement'' \<or> \<not> truthy (followingNode ctx)
      then declined s
      else if getNextNonSpaceNonCommentCharacter E (source_text ctx) (comment ctx) (locEnd E) = '')''
      then claimed (addTrailingComment (precedingNode ctx) (comment ctx) s)
      else
        bindE (get (followingNode ctx) ''type'') (\<lambda>t.
          if eq_str t ''BlockStatement''
          then claimed (addBlockStatementFirstComment (followingNode ctx) (comment ctx) s)
          else
            ifE (mapE (\<lambda>b. strict_eq b (followingNode ctx)) (get (enclosingNode ctx) ''body''))
              (claimed (addLeadingComment (followingNode ctx) (comment ctx) s))
              (declined s)))"

definition handleTryStatementComments :: handler where
  "handleTryStatementComments E ctx s =
     (if (\<not> eq_str (opt (enclosingNode ctx) ''type'') ''TryStatement'' \<and>
          \<not> eq_str (opt (enclosingNode ctx) ''type'') ''CatchClause'') \<or>
         \<not> truthy (followingNode ctx)
      then declined s
      else
        ifE (andE (mapE (\<lambda>t. eq_str t ''CatchClause'') (get (enclosingNode ctx) ''type''))
                  (Inr (truthy (precedingNode ctx))))
          (claimed (addTrailingComment (precedingNode ctx) (comment ctx) s))
          (bindE (get (followingNode ctx) ''type'') (\<lambda>t.
             if eq_str t ''BlockStatement''
             then claimed (addBlockStatementFirstComment (followingNode ctx) (comment ctx) s)
             else if eq_str t ''TryStatement''
             then bindE (get (followingNode ctx) ''finalizer'') (\<lambda>fin.
                    claimed (addBlockOrNotComment fin (comment ctx) s))
             else if eq_str t ''CatchClause''
             then bindE (get (followingNode ctx) ''body'') (\<lambda>b.
                    claimed (addBlockOrNotComment b (comment ctx) s))
             else declined s)))"

subsection \<open>Expressions, properties and classes\<close>

definition handleMemberExpressionComments :: handler where
  "handleMemberExpressionComments E ctx s =
     (if isMemberExpression E (enclosingNode ctx) \<and>
         eq_str (opt (followingNode ctx) ''type'') ''Identifier''
      then claimed (addLeadingComment (enclosingNode ctx) (comment ctx) s)
      else declined s)"

definition handleConditionalExpressionComments :: handler where
  "handleConditionalExpressionComments E ctx s =
     (let isSameLineAsPrecedingNode =
            (truthy (precedingNode ctx) \<and>
             \<not> hasNewlineInRange E (source_text ctx) (locEnd E (precedingNode ctx))
                  (locStart E (comment ctx)))
      in if (\<not> truthy (precedingNode ctx) \<or> \<not> isSameLineAsPrecedingNode) \<and>
            (eq_str (opt (enclosingNode ctx) ''type'') ''ConditionalExpression'' \<or>
             eq_str (opt (enclosingNode ctx) ''type'') ''TSConditionalType'') \<and>
            truthy (followingNode ctx)
         then claimed (addLeadingComment (followingNode ctx) (comment ctx) s)
         else declined s)"

definition handleObjectPropertyAssignment :: handler where
  "handleObjectPropertyAssignment E ctx s =
     ifE (andE (Inr (isObjectProperty E (enclosingNode ctx)))
         (andE (mapE truthy (get (enclosingNode ctx) ''shorthand''))
         (andE (mapE (\<lambda>k. strict_eq k (precedingNode ctx)) (get (enclosingNode ctx) ''key''))
               (mapE (\<lambda>t. eq_str t ''AssignmentPattern'')
                  (get2 (enclosingNode ctx) ''value'' ''type'')))))
       (bindE (get2 (enclosingNode ctx) ''value'' ''left'') (\<lambda>left.
          claimed (addTrailingComment left (comment ctx) s)))
       (declined s)"

definition classLikeNodeTypes :: "string list" where
  "classLikeNodeTypes =
     [''ClassDeclaration'', ''ClassExpression'', ''DeclareClass'', ''DeclareInterface'',
      ''InterfaceDeclaration'', ''TSInterfaceDeclaration'']"

text \<open>
  The loop \<^verbatim>\<open>for (const prop of ["implements", "extends", "mixins"])\<close> of
  \<^verbatim>\<open>handleClassComments\<close>, which returns from the handler at the first list whose
  first entry is the following node.
\<close>

fun handleClassComments_loop :: "string list \<Rightarrow> ctx \<Rightarrow> store \<Rightarrow> error + (bool \<times> store)" where
  "handleClassComments_loop [] ctx s = declined s"
| "handleClassComments_loop (prop # rest) ctx s =
     ifE (andE (mapE truthy (get (enclosingNode ctx) prop))
               (bindE (get (enclosingNode ctx) prop) (\<lambda>arr.
                  mapE (strict_eq (followingNode ctx)) (index0 arr))))
       (claimed
         (ifE (andE (Inr (truthy (precedingNode ctx)))
                (orE (mapE (strict_eq (precedingNode ctx)) (get (enclosingNode ctx) ''id''))
                (orE (mapE (strict_eq (precedingNode ctx)) (get (enclosingNode ctx) ''typeParameters''))
                     (mapE (strict_eq (precedingNode ctx)) (get (enclosingNode ctx) ''superClass'')))))
            (addTrailingComment (precedingNode ctx) (comment ctx) s)
            (addDanglingComment (enclosingNode ctx) (comment ctx) (JStr prop) s)))
       (handleClassComments_loop rest ctx s)"

definition handleClassComments :: handler where
  "handleClassComments E ctx s =
     (if set_has classLikeNodeTypes (opt (enclosingNode ctx) ''type'')
      then
        ifE (andE (mapE (isNonEmptyArray E) (get (enclosingNode ctx) ''decorators''))
                  (mapE Not (andE (Inr (truthy (followingNode ctx)))
                     (mapE (\<lambda>t. eq_str t ''Decorator'') (get (followingNode ctx) ''type'')))))
          (bindE (get (enclosingNode ctx) ''decorators'') (\<lambda>decorators.
             claimed (addTrailingComment (getLast E decorators) (comment ctx) s)))
          (ifE (andE (mapE truthy (get (enclosingNode ctx) ''body''))
                     (mapE (strict_eq (followingNode ctx)) (get (enclosingNode ctx) ''body'')))
             (bindE (get (enclosingNode ctx) ''body'') (\<lambda>body.
                claimed (addBlockStatementFirstComment body (comment ctx) s)))
             (if truthy (followingNode ctx)
              then
                ifE (andE (mapE truthy (get (enclosingNode ctx) ''superClass''))
                    (andE (mapE (strict_eq (followingNode ctx)) (get (enclosingNode ctx) ''superClass''))
                    (andE (Inr (truthy (precedingNode ctx)))
                    (orE (mapE (strict_eq (precedingNode ctx)) (get (enclosingNode ctx) ''id''))
                         (mapE (strict_eq (precedingNode ctx))
                            (get (enclosingNode ctx) ''typeParameters''))))))
                  (claimed (addTrailingComment (precedingNode ctx) (comment ctx) s))
                  (handleClassComments_loop [''implements'', ''extends'', ''mixins''] ctx s)
              else declined s))
      else declined s)"

definition propertyLikeNodeTypes :: "string list" where
  "propertyLikeNodeTypes =
     [''ClassMethod'', ''ClassProperty'', ''PropertyDefinition'',
      ''TSAbstractPropertyDefinition'', ''TSAbstractMethodDefinition'', ''TSDeclareMethod'',
      ''MethodDefinition'']"

definition handleMethodNameComments :: handler where
  "handleMethodNameComments E ctx s =
     ifE (andE (Inr (truthy (enclosingNode ctx) \<and> truthy (precedingNode ctx) \<and>
                  getNextNonSpaceNonCommentCharacter E (source_text ctx) (comment ctx) (locEnd E) = ''(''))
         (andE (mapE (\<lambda>t. eq_str t ''Property'' \<or> eq_str t ''TSDeclareMethod'' \<or>
                          eq_str t ''TSAbstractMethodDefinition'')
                  (get (enclosingNode ctx) ''type''))
         (andE (mapE (\<lambda>t. eq_str t ''Identifier'') (get (precedingNode ctx) ''type''))
         (andE (mapE (\<lambda>k. strict_eq k (precedingNode ctx)) (get (enclosingNode ctx) ''key''))
               (Inr (getNextNonSpaceNonCommentCharacter E (source_text ctx) (precedingNode ctx)
                       (locEnd E) \<noteq> '':''))))))
       (claimed (addTrailingComment (precedingNode ctx) (comment ctx) s))
       (if eq_str (opt (precedingNode ctx) ''type'') ''Decorator'' \<and>
           set_has propertyLikeNodeTypes (opt (enclosingNode ctx) ''type'')
        then claimed (addTrailingComment (precedingNode ctx) (comment ctx) s)
        else declined s)"

definition functionLikeNodeTypes :: "string list" where
  "functionLikeNodeTypes =
     [''FunctionDeclaration'', ''FunctionExpression'', ''ClassMethod'', ''MethodDefinition'',
      ''ObjectMethod'']"

definition handleFunctionNameComments :: handler where
  "handleFunctionNameComments E ctx s =
     (if getNextNonSpaceNonCommentCharacter E (source_text ctx) (comment ctx) (locEnd E) \<noteq> ''(''
      then declined s
      else if truthy (precedingNode ctx) \<and>
              set_has functionLikeNodeTypes (opt (enclosingNode ctx) ''type'')
      then claimed (addTrailingComment (precedingNode ctx) (comment ctx) s)
      else declined s)"

subsection \<open>Parameter and argument lists\<close>

definition handleCommentAfterArrowParams :: handler where
  "handleCommentAfterArrowParams E ctx s =
     (if \<not> eq_str (opt (enclosingNode ctx) ''type'') ''ArrowFunctionExpression''
      then declined s
      else
        (case getNextNonSpaceNonCommentCharacterIndex E (source_text ctx) (comment ctx) (locEnd E) of
           None \<Rightarrow> declined s
         | Some index \<Rightarrow>
             if take 2 (drop index (source_text ctx)) = ''=>''
             then claimed (addDanglingComment (enclosingNode ctx) (comment ctx) Undefined s)
             else declined s))"

definition isRealFunctionLikeNode :: "jsval \<Rightarrow> error + bool" where
  "isRealFunctionLikeNode node =
     mapE (\<lambda>t. eq_str t ''ArrowFunctionExpression'' \<or> eq_str t ''FunctionExpression'' \<or>
                eq_str t ''FunctionDeclaration'' \<or> eq_str t ''ObjectMethod'' \<or>
                eq_str t ''ClassMethod'' \<or> eq_str t ''TSDeclareFunction'' \<or>
                eq_str t ''TSCallSignatureDeclaration'' \<or>
                eq_str t ''TSConstructSignatureDeclaration'' \<or>
                eq_str t ''TSMethodSignature'' \<or> eq_str t ''TSConstructorType'' \<or>
                eq_str t ''TSFunctionType'' \<or> eq_str t ''TSDeclareMethod'')
       (get node ''type'')"

definition handleCommentInEmptyParens :: handler where
  "handleCommentInEmptyParens E ctx s =
     (if getNextNonSpaceNonCommentCharacter E (source_text ctx) (comment ctx) (locEnd E) \<noteq> '')''
      then declined s
      else
        ifE (andE (Inr (truthy (enclosingNode ctx)))
              (orE (andE (isRealFunctionLikeNode (enclosingNode ctx))
                         (Inr (length (getFunctionParameters E (enclosingNode ctx)) = 0)))
                   (Inr (isCallLikeExpression E (enclosingNode ctx) \<and>
                         length (getCallArguments E (enclosingNode ctx)) = 0))))
          (claimed (addDanglingComment (enclosingNode ctx) (comment ctx) Undefined s))
          (ifE (andE (Inr (eq_str (opt (enclosingNode ctx) ''type'') ''MethodDefinition'' \<or>
                           eq_str (opt (enclosingNode ctx) ''type'') ''TSAbstractMethodDefinition''))
                     (mapE (\<lambda>v. length (getFunctionParameters E v) = 0)
                        (get (enclosingNode ctx) ''value'')))
             (bindE (get (enclosingNode ctx) ''value'') (\<lambda>v.
                claimed (addDanglingComment v (comment ctx) Undefined s)))
             (declined s)))"

text \<open>
  \<^verbatim>\<open>locStart(comment) > functionParamRightParenIndex\<close>, where the index is a number or
  \<^verbatim>\<open>false\<close> (\<open>None\<close>), which \<^verbatim>\<open>>\<close> reads as 0.
\<close>

definition gt_index :: "nat \<Rightarrow> nat option \<Rightarrow> bool" where
  "gt_index a r = (case r of None \<Rightarrow> a > 0 | Some i \<Rightarrow> a > i)"

definition functionParamRightParenIndex :: "env \<Rightarrow> ctx \<Rightarrow> error + nat option" where
  "functionParamRightParenIndex E ctx =
     (let parameters = getFunctionParameters E (enclosingNode ctx)
      in if length parameters > 0
         then Inr (getNextNonSpaceNonCommentCharacterIndexWithStartIndex E (source_text ctx)
                     (locEnd E (getLast E (JArr parameters))))
         else
           bindE (get (enclosingNode ctx) ''id'') (\<lambda>ident.
             (case getNextNonSpaceNonCommentCharacterIndexWithStartIndex E (source_text ctx)
                     (locEnd E ident) of
                None \<Rightarrow> Inr None
              | Some functionParamLeftParenIndex \<Rightarrow>
                  Inr (getNextNonSpaceNonCommentCharacterIndexWithStartIndex E (source_text ctx)
                         (functionParamLeftParenIndex + 1)))))"

definition handleLastFunctionArgComments :: handler where
  "handleLastFunctionArgComments E ctx s =
     (if eq_str (opt (precedingNode ctx) ''type'') ''FunctionTypeParam'' \<and>
         eq_str (opt (enclosingNode ctx) ''type'') ''FunctionTypeAnnotation'' \<and>
         \<not> eq_str (opt (followingNode ctx) ''type'') ''FunctionTypeParam''
      then claimed (addTrailingComment (precedingNode ctx) (comment ctx) s)
      else
        ifE (andE (Inr ((eq_str (opt (precedingNode ctx) ''type'') ''Identifier'' \<or>
                         eq_str (opt (precedingNode ctx) ''type'') ''AssignmentPattern'') \<and>
                        truthy (enclosingNode ctx)))
            (andE (isRealFunctionLikeNode (enclosingNode ctx))
                  (Inr (getNextNonSpaceNonCommentCharacter E (source_text ctx) (comment ctx)
                          (locEnd E) = '')''))))
          (claimed (addTrailingComment (precedingNode ctx) (comment ctx) s))
          (if eq_str (opt (enclosingNode ctx) ''type'') ''FunctionDeclaration'' \<and>
              eq_str (opt (followingNode ctx) ''type'') ''BlockStatement''
           then
             bindE (functionParamRightParenIndex E ctx) (\<lambda>idx.
               if gt_index (locStart E (comment ctx)) idx
               then claimed (addBlockStatementFirstComment (followingNode ctx) (comment ctx) s)
               else declined s)
           else declined s))"

subsection \<open>Statements, calls, union types and modules\<close>

definition handleLabeledStatementComments :: handler where
  "handleLabeledStatementComments E ctx s =
     (if eq_str (opt (enclosingNode ctx) ''type'') ''LabeledStatement''
      then claimed (addLeadingComment (enclosingNode ctx) (comment ctx) s)
      else declined s)"

definition handleBreakAndContinueStatementComments :: handler where
  "handleBreakAndContinueStatementComments E ctx s =
     ifE (andE (Inr (eq_str (opt (enclosingNode ctx) ''type'') ''ContinueStatement'' \<or>
                     eq_str (opt (enclosingNode ctx) ''type'') ''BreakStatement''))
               (mapE (\<lambda>l. \<not> truthy l) (get (enclosingNode ctx) ''label'')))
       (claimed (addTrailingComment (enclosingNode ctx) (comment ctx) s))
       (declined s)"

text \<open>
  \<^verbatim>\<open>x > 0\<close> for the \<^verbatim>\<open>length\<close> of an array, a number; \<^verbatim>\<open>undefined > 0\<close> is
  false.
\<close>

definition gt_zero :: "jsval \<Rightarrow> bool" where
  "gt_zero v = (case v of JNum n \<Rightarrow> n > 0 | JBool b \<Rightarrow> b | _ \<Rightarrow> False)"

definition handleCallExpressionComments :: handler where
  "handleCallExpressionComments E ctx s =
     ifE (andE (Inr (isCallExpression E (enclosingNode ctx) \<and> truthy (precedingNode ctx)))
         (andE (mapE (\<lambda>callee. strict_eq callee (precedingNode ctx))
                  (get (enclosingNode ctx) ''callee''))
               (mapE gt_zero (get2 (enclosingNode ctx) ''arguments'' ''length''))))
       (bindE (bindE (get (enclosingNode ctx) ''arguments'') index0) (\<lambda>arg0.
          claimed (addLeadingComment arg0 (comment ctx) s)))
       (declined s)"

definition handleUnionTypeComments :: handler where
  "handleUnionTypeComments E ctx s =
     (if eq_str (opt (enclosingNode ctx) ''type'') ''UnionTypeAnnotation'' \<or>
         eq_str (opt (enclosingNode ctx) ''type'') ''TSUnionType''
      then
        bindE (if isPrettierIgnoreComment E s (comment ctx)
               then bindE (set_prettierIgnore (followingNode ctx) s) (set_unignore (comment ctx))
               else Inr s) (\<lambda>s1.
          if truthy (precedingNode ctx)
          then claimed (addTrailingComment (precedingNode ctx) (comment ctx) s1)
          else declined s1)
      else
        bindE (if (eq_str (opt (followingNode ctx) ''type'') ''UnionTypeAnnotation'' \<or>
                   eq_str (opt (followingNode ctx) ''type'') ''TSUnionType'') \<and>
                  isPrettierIgnoreComment E s (comment ctx)
               then bindE (bindE (get (followingNode ctx) ''types'') index0) (\<lambda>type0.
                      bindE (set_prettierIgnore type0 s) (set_unignore (comment ctx)))
               else Inr s)
          declined)"

definition handlePropertyComments :: handler where
  "handlePropertyComments E ctx s =
     (if isObjectProperty E (enclosingNode ctx)
      then claimed (addLeadingComment (enclosingNode ctx) (comment ctx) s)
      else declined s)"

definition handleOnlyComments :: handler where
  "handleOnlyComments E ctx s =
     ifE (andE (Inr (truthy (ast ctx)))
         (andE (mapE truthy (get (ast ctx) ''body''))
               (mapE (\<lambda>l. strict_eq l (JNum 0)) (get2 (ast ctx) ''body'' ''length''))))
       (claimed (if isLastComment ctx
                 then addDanglingComment (ast ctx) (comment ctx) Undefined s
                 else addLeadingComment (ast ctx) (comment ctx) s))
       (ifE (andE (Inr (eq_str (opt (enclosingNode ctx) ''type'') ''Program''))
            (andE (mapE (\<lambda>l. strict_eq l (JNum 0)) (get2 (enclosingNode ctx) ''body'' ''length''))
                  (mapE (\<lambda>d. \<not> isNonEmptyArray E d) (get (enclosingNode ctx) ''directives''))))
          (claimed (if isLastComment ctx
                    then addDanglingComment (enclosingNode ctx) (comment ctx) Undefined s
                    else addLeadingComment (enclosingNode ctx) (comment ctx) s))
          (ifE (andE (Inr (eq_str (opt (followingNode ctx) ''type'') ''Program''))
               (andE (mapE (\<lambda>l. strict_eq l (JNum 0)) (get2 (followingNode ctx) ''body'' ''length''))
                     (Inr (eq_str (opt (enclosingNode ctx) ''type'') ''ModuleExpression''))))
             (claimed (addDanglingComment (followingNode ctx) (comment ctx) Undefined s))
             (declined s)))"

definition handleForComments :: handler where
  "handleForComments E ctx s =
     (if eq_str (opt (enclosingNode ctx) ''type'') ''ForInStatement'' \<or>
         eq_str (opt (enclosingNode ctx) ''type'') ''ForOfStatement''
      then claimed (addLeadingComment (enclosingNode ctx) (comment ctx) s)
      else declined s)"

definition handleModuleSpecifiersComments :: handler where
  "handleModuleSpecifiersComments E ctx s =
     (if eq_str (opt (enclosingNode ctx) ''type'') ''ImportSpecifier'' \<or>
         eq_str (opt (enclosingNode ctx) ''type'') ''ExportSpecifier''
      then claimed (addLeadingComment (enclosingNode ctx) (comment ctx) s)
      else
        (let isImportDeclaration =
               (eq_str (opt (precedingNode ctx) ''type'') ''ImportSpecifier'' \<and>
                eq_str (opt (enclosingNode ctx) ''type'') ''ImportDeclaration'');
             isExportDeclaration =
               (eq_str (opt (precedingNode ctx) ''type'') ''ExportSpecifier'' \<and>
                eq_str (opt (enclosingNode ctx) ''type'') ''ExportNamedDeclaration'')
         in if (isImportDeclaration \<or> isExportDeclaration) \<and>
               hasNewline E (source_text ctx) (locEnd E (comment ctx))
            then claimed (addTrailingComment (precedingNode ctx) (comment ctx) s)
            else declined s))"

definition handleAssignmentPatternComments :: handler where
  "handleAssignmentPatternComments E ctx s =
     (if eq_str (opt (enclosingNode ctx) ''type'') ''AssignmentPattern''
      then claimed (addLeadingComment (enclosingNode ctx) (comment ctx) s)
      else declined s)"

definition assignmentLikeNodeTypes :: "string list" where
  "assignmentLikeNodeTypes =
     [''VariableDeclarator'', ''AssignmentExpression'', ''TypeAlias'', ''TSTypeAliasDeclaration'']"

definition complexExprNodeTypes :: "string list" where
  "complexExprNodeTypes =
     [''ObjectExpression'', ''ArrayExpression'', ''TemplateLiteral'',
      ''TaggedTemplateExpression'', ''ObjectTypeAnnotation'', ''TSTypeLiteral'']"

definition handleVariableDeclaratorComments :: handler where
  "handleVariableDeclaratorComments E ctx s =
     ifE (andE (Inr (set_has assignmentLikeNodeTypes (opt (enclosingNode ctx) ''type'') \<and>
                     truthy (followingNode ctx)))
               (orE (mapE (set_has complexExprNodeTypes) (get (followingNode ctx) ''type''))
                    (Inr (isBlockComment E (comment ctx)))))
       (claimed (addLeadingComment (followingNode ctx) (comment ctx) s))
       (declined s)"

definition handleTSFunctionTrailingComments :: handler where
  "handleTSFunctionTrailingComments E ctx s =
     (if \<not> truthy (followingNode ctx) \<and>
         (eq_str (opt (enclosingNode ctx) ''type'') ''TSMethodSignature'' \<or>
          eq_str (opt (enclosingNode ctx) ''type'') ''TSDeclareFunction'' \<or>
          eq_str (opt (enclosingNode ctx) ''type'') ''TSAbstractMethodDefinition'') \<and>
         getNextNonSpaceNonCommentCharacter E (source_text ctx) (comment ctx) (locEnd E) = '';''
      then claimed (addTrailingComment (enclosingNode ctx) (comment ctx) s)
      else declined s)"

text \<open>
  \<^verbatim>\<open>handleIgnoreComments\<close> claims the comment without attaching it: it flags the
  enclosing node and the comment. Where it does not claim it returns \<^verbatim>\<open>undefined\<close>,
  which \<^verbatim>\<open>some\<close> reads as false.
\<close>

definition handleIgnoreComments :: handler where
  "handleIgnoreComments E ctx s =
     ifE (andE (Inr (isPrettierIgnoreComment E s (comment ctx) \<and>
                     eq_str (opt (enclosingNode ctx) ''type'') ''TSMappedType'' \<and>
                     eq_str (opt (followingNode ctx) ''type'') ''TSTypeParameter''))
               (mapE truthy (get (followingNode ctx) ''constraint'')))
       (claimed (bindE (set_prettierIgnore (enclosingNode ctx) s) (set_unignore (comment ctx))))
       (declined s)"

definition handleTSMappedTypeComments :: handler where
  "handleTSMappedTypeComments E ctx s =
     (if \<not> eq_str (opt (enclosingNode ctx) ''type'') ''TSMappedType''
      then declined s
      else
        ifE (andE (Inr (eq_str (opt (followingNode ctx) ''type'') ''TSTypeParameter''))
                  (mapE truthy (get (followingNode ctx) ''name'')))
          (bindE (get (followingNode ctx) ''name'') (\<lambda>name.
             claimed (addLeadingComment name (comment ctx) s)))
          (ifE (andE (Inr (eq_str (opt (precedingNode ctx) ''type'') ''TSTypeParameter''))
                     (mapE truthy (get (precedingNode ctx) ''constraint'')))
             (bindE (get (precedingNode ctx) ''constraint'') (\<lambda>constraint.
                claimed (addTrailingComment constraint (comment ctx) s)))
             (declined s)))"

definition handleSwitchDefaultCaseComments :: handler where
  "handleSwitchDefaultCaseComments E ctx s =
     ifE (orE (Inr (\<not> truthy (enclosingNode ctx)))
         (orE (mapE (\<lambda>t. \<not> eq_str t ''SwitchCase'') (get (enclosingNode ctx) ''type''))
              (mapE truthy (get (enclosingNode ctx) ''test''))))
       (declined s)
       (claimed
         (ifE (andE (mapE (\<lambda>t. eq_str t ''BlockStatement'') (get (followingNode ctx) ''type''))
                    (Inr (isLineComment E (comment ctx))))
            (addBlockStatementFirstComment (followingNode ctx) (comment ctx) s)
            (addDanglingComment (enclosingNode ctx) (comment ctx) Undefined s)))"

section \<open>The three chains\<close>

text \<open>
  \<^verbatim>\<open>[h1, h2, ...].some((fn) => fn(context))\<close> calls the handlers in order and stops at
  the first that returns a true value; an exception of a handler leaves the chain.
\<close>

fun some_handler :: "handler list \<Rightarrow> env \<Rightarrow> ctx \<Rightarrow> store \<Rightarrow> error + (bool \<times> store)" where
  "some_handler [] E ctx s = Inr (False, s)"
| "some_handler (fn # rest) E ctx s =
     (case fn E ctx s of
        Inl e \<Rightarrow> Inl e
      | Inr (b, s') \<Rightarrow> if b then Inr (True, s') else some_handler rest E ctx s')"

definition ownLineHandlers :: "handler list" where
  "ownLineHandlers =
     [handleIgnoreComments, handleLastFunctionArgComments, handleMemberExpressionComments,
      handleIfStatementComments, handleWhileComments, handleTryStatementComments,
      handleClassComments, handleForComments, handleUnionTypeComments, handleOnlyComments,
      handleModuleSpecifiersComments, handleAssignmentPatternComments,
      handleMethodNameComments, handleLabeledStatementComments,
      handleBreakAndContinueStatementComments]"

definition endOfLineHandlers :: "handler list" where
  "endOfLineHandlers =
     [handleClosureTypeCastComments, handleLastFunctionArgComments,
      handleConditionalExpressionComments, handleModuleSpecifiersComments,
      handleIfStatementComments, handleWhileComments, handleTryStatementComments,
      handleClassComments, handleLabeledStatementComments, handleCallExpressionComments,
      handlePropertyComments, handleOnlyComments, handleVariableDeclaratorComments,
      handleBreakAndContinueStatementComments, handleSwitchDefaultCaseComments]"

definition remainingHandlers :: "handler list" where
  "remainingHandlers =
     [handleIgnoreComments, handleIfStatementComments, handleWhileComments,
      handleObjectPropertyAssignment, handleCommentInEmptyParens, handleMethodNameComments,
      handleOnlyComments, handleCommentAfterArrowParams, handleFunctionNameComments,
      handleTSMappedTypeComments, handleBreakAndContinueStatementComments,
      handleTSFunctionTrailingComments]"

definition handleOwnLineComment :: handler where
  "handleOwnLineComment E ctx s = some_handler ownLineHandlers E ctx s"

definition handleEndOfLineComment :: handler where
  "handleEndOfLineComment E ctx s = some_handler endOfLineHandlers E ctx s"

definition handleRemainingComment :: handler where
  "handleRemainingComment E ctx s = some_handler remainingHandlers E ctx s"

section \<open>An instance of the imports\<close>

text \<open>
  Modelled from the spec: the helper functions of \<^verbatim>\<open>../common/util.js\<close>,
  \<^verbatim>\<open>./utils/index.js\<close>, \<^verbatim>\<open>./loc.js\<close> and \<^verbatim>\<open>./utils/is-block-comment.js\<close> are
  missing from the sources. The instance below follows the spec's words: the source text
  is a "raw character buffer, used for whitespace/newline and next-character lookahead
  queries", the lookahead finds "the next non-whitespace, non-comment character after the
  comment", comments are of kind "line-comment | block-comment", a "suppression
  (format-ignore) marker" is a comment whose text is \<^verbatim>\<open>prettier-ignore\<close>, a node has
  a "byte range", and the call-like and function-like shapes have an "argument list" and
  a "parameter list". The instance is used only to run the handlers on concrete inputs;
  the theorems about the handlers hold for every instance.
\<close>

definition is_space :: "char \<Rightarrow> bool" where
  "is_space ch = (ch = CHR '' '' \<or> ch = CHR 0x09 \<or> ch = CHR 0x0A \<or> ch = CHR 0x0D)"

datatype scan_mode = InCode | InBlockComment | InLineComment

fun skip_to_code :: "scan_mode \<Rightarrow> string \<Rightarrow> nat \<Rightarrow> nat" where
  "skip_to_code m [] i = i"
| "skip_to_code InCode (ch # rest) i =
     (if is_space ch then skip_to_code InCode rest (i + 1)
      else
        (case rest of
           [] \<Rightarrow> i
         | d # r \<Rightarrow>
             if ch = CHR ''/'' \<and> d = CHR ''*'' then skip_to_code InBlockComment r (i + 2)
             else if ch = CHR ''/'' \<and> d = CHR ''/'' then skip_to_code InLineComment r (i + 2)
             else i))"
| "skip_to_code InBlockComment (ch # rest) i =
     (case rest of
        [] \<Rightarrow> i + 1
      | d # r \<Rightarrow>
          if ch = CHR ''*'' \<and> d = CHR ''/'' then skip_to_code InCode r (i + 2)
          else skip_to_code InBlockComment rest (i + 1))"
| "skip_to_code InLineComment (ch # rest) i =
     (if ch = CHR 0x0A then skip_to_code InCode rest (i + 1)
      else skip_to_code InLineComment rest (i + 1))"

definition next_code_index :: "string \<Rightarrow> nat \<Rightarrow> nat option" where
  "next_code_index txt i =
     (if i \<le> length txt then Some (skip_to_code InCode (drop i txt) i) else None)"

definition next_code_character :: "string \<Rightarrow> jsval \<Rightarrow> (jsval \<Rightarrow> nat) \<Rightarrow> string" where
  "next_code_character txt node loc =
     (case next_code_index txt (loc node) of None \<Rightarrow> [] | Some i \<Rightarrow> take 1 (drop i txt))"

fun newline_after_spaces :: "string \<Rightarrow> bool" where
  "newline_after_spaces [] = False"
| "newline_after_spaces (ch # rest) =
     (if ch = CHR '' '' \<or> ch = CHR 0x09 then newline_after_spaces rest
      else ch = CHR 0x0A \<or> ch = CHR 0x0D)"

definition num_prop :: "string \<Rightarrow> jsval \<Rightarrow> nat" where
  "num_prop k node = (case opt node k of JNum n \<Rightarrow> nat n | _ \<Rightarrow> 0)"

definition array_prop :: "string \<Rightarrow> jsval \<Rightarrow> jsval list" where
  "array_prop k node = (case opt node k of JArr xs \<Rightarrow> xs | _ \<Rightarrow> [])"

definition trim :: "string \<Rightarrow> string" where
  "trim str = rev (dropWhile is_space (rev (dropWhile is_space str)))"

definition instance_env :: "jsval \<Rightarrow> env" where
  "instance_env module_options =
     \<lparr> getLast = (\<lambda>v. case v of JArr xs \<Rightarrow> (if xs = [] then Undefined else last xs)
                              | _ \<Rightarrow> Undefined),
       hasNewline = (\<lambda>txt i. newline_after_spaces (drop i txt)),
       getNextNonSpaceNonCommentCharacterIndexWithStartIndex = next_code_index,
       getNextNonSpaceNonCommentCharacter = next_code_character,
       hasNewlineInRange = (\<lambda>txt a b. CHR 0x0A \<in> set (take (b - a) (drop a txt))),
       getNextNonSpaceNonCommentCharacterIndex =
         (\<lambda>txt node loc. next_code_index txt (loc node)),
       isNonEmptyArray = (\<lambda>v. case v of JArr xs \<Rightarrow> xs \<noteq> [] | _ \<Rightarrow> False),
       getFunctionParameters =
         (\<lambda>node. case opt node ''parameters'' of JArr xs \<Rightarrow> xs | _ \<Rightarrow> array_prop ''params'' node),
       isPrettierIgnoreComment =
         (\<lambda>s c. (case opt c ''value'' of JStr v \<Rightarrow> trim v = ''prettier-ignore'' | _ \<Rightarrow> False) \<and>
                 c \<notin> set (unignore s)),
       isCallLikeExpression =
         (\<lambda>node. set_has [''CallExpression'', ''OptionalCallExpression'', ''NewExpression'',
                           ''ImportExpression''] (opt node ''type'')),
       getCallArguments = array_prop ''arguments'',
       isCallExpression =
         (\<lambda>node. set_has [''CallExpression'', ''OptionalCallExpression''] (opt node ''type'')),
       isMemberExpression =
         (\<lambda>node. set_has [''MemberExpression'', ''OptionalMemberExpression''] (opt node ''type'')),
       isObjectProperty =
         (\<lambda>node. eq_str (opt node ''type'') ''ObjectProperty'' \<or>
                  (eq_str (opt node ''type'') ''Property'' \<and> \<not> truthy (opt node ''method'') \<and>
                   eq_str (opt node ''kind'') ''init'')),
       isLineComment =
         (\<lambda>c. set_has [''Line'', ''CommentLine'', ''SingleLine''] (opt c ''type'')),
       markerForIfWithoutBlockAndSameLineComment = JStr ''ifWithoutBlockAndSameLineComment'',
       locStart = num_prop ''start'',
       locEnd = num_prop ''end'',
       isBlockComment =
         (\<lambda>c. set_has [''Block'', ''CommentBlock'', ''MultiLine''] (opt c ''type'')),
       required_options = module_options \<rparr>"

definition empty_store :: store where
  "empty_store = \<lparr> attachments = [], prettierIgnore = [], unignore = [] \<rparr>"

section \<open>Notions used by the statements\<close>

text \<open>A syntax-tree node is an object.\<close>

fun is_node :: "jsval \<Rightarrow> bool" where
  "is_node (JObj i ps) = True"
| "is_node v = False"

text \<open>
  The outcome the spec describes for a comment routed to a block: the comment leads "that
  block's first non-empty statement", or dangles on the block "if it has none".
\<close>

definition first_non_empty_statement :: "jsval list \<Rightarrow> jsval option" where
  "first_non_empty_statement stmts =
     List.find (\<lambda>x. opt x ''type'' \<noteq> JStr ''EmptyStatement'') stmts"

definition block_first_outcome :: "store \<Rightarrow> jsval \<Rightarrow> jsval list \<Rightarrow> jsval \<Rightarrow> store" where
  "block_first_outcome s blk stmts c =
     (case first_non_empty_statement stmts of
        Some first \<Rightarrow> commit s first Leading c None
      | None \<Rightarrow> commit s blk Dangling c None)"

text \<open>
  The spec's reading of the regular expression \<^verbatim>\<open>/@type\b/\<close>: the text contains
  \<^verbatim>\<open>@type\<close> at a word boundary, that is, followed by the end of the text or by a
  character that is not a word character. \<open>starts_with_star\<close>: the text starts with
  \<^verbatim>\<open>*\<close>.
\<close>

definition has_at_type_word :: "string \<Rightarrow> bool" where
  "has_at_type_word v =
     (\<exists>pre post. v = pre @ ''@type'' @ post \<and> (post = [] \<or> \<not> is_word_char (hd post)))"

definition starts_with_star :: "string \<Rightarrow> bool" where
  "starts_with_star v = (v \<noteq> [] \<and> hd v = CHR ''*'')"

text \<open>
  One attachment decision for the comment \<open>c\<close>: the store \<open>s'\<close> has the attachments
  of \<open>s\<close> and one more, of \<open>c\<close>, to one node under one role. \<open>chain_effect\<close> is what
  the spec asks of a handler or a chain that returns \<open>b\<close>: one decision when it claims
  the comment, none when it declines.
\<close>

definition one_attachment :: "jsval \<Rightarrow> store \<Rightarrow> store \<Rightarrow> bool" where
  "one_attachment c s s' =
     (\<exists>node r m. is_object node \<and>
        attachments s' = attachments s @ [\<lparr>owner = node, arole = r, attached = c, marker = m\<rparr>])"

definition chain_effect :: "bool \<Rightarrow> jsval \<Rightarrow> store \<Rightarrow> store \<Rightarrow> bool" where
  "chain_effect b c s s' =
     (if b then one_attachment c s s' else attachments s' = attachments s)"

definition attaches_once :: "handler \<Rightarrow> bool" where
  "attaches_once h =
     (\<forall>E ctx s b s'. h E ctx s = Inr (b, s') \<longrightarrow> chain_effect b (comment ctx) s s')"

text \<open>A handler that does not read the configuration of its context.\<close>

definition ignores_options :: "handler \<Rightarrow> bool" where
  "ignores_options h = (\<forall>E ctx cfg s. h E (ctx\<lparr>options := cfg\<rparr>) s = h E ctx s)"

text \<open>Two contexts that differ at most in their configuration.\<close>

definition same_but_options :: "ctx \<Rightarrow> ctx \<Rightarrow> bool" where
  "same_but_options c1 c2 =
     (comment c1 = comment c2 \<and> precedingNode c1 = precedingNode c2 \<and>
      enclosingNode c1 = enclosingNode c2 \<and> followingNode c1 = followingNode c2 \<and>
      source_text c1 = source_text c2 \<and> ast c1 = ast c2 \<and>
      isLastComment c1 = isLastComment c2)"

section \<open>Worked inputs\<close>

text \<open>
  Concrete nodes, comments and contexts, as a parser and the context builder produce
  them for the source texts quoted with each. A node carries its \<^verbatim>\<open>type\<close>, its
  children and its range (\<^verbatim>\<open>start\<close>, \<^verbatim>\<open>end\<close>); a comment its \<^verbatim>\<open>type\<close>, its
  \<^verbatim>\<open>value\<close>, its range and the lines of its \<^verbatim>\<open>loc\<close>.
\<close>

definition mk_loc :: "int \<Rightarrow> int \<Rightarrow> jsval" where
  "mk_loc l1 l2 =
     JObj 0 [(''start'', JObj 0 [(''line'', JNum l1)]), (''end'', JObj 0 [(''line'', JNum l2)])]"

definition mk_comment :: "nat \<Rightarrow> string \<Rightarrow> string \<Rightarrow> int \<Rightarrow> int \<Rightarrow> int \<Rightarrow> int \<Rightarrow> jsval" where
  "mk_comment i ty v a b l1 l2 =
     JObj i [(''type'', JStr ty), (''value'', JStr v), (''start'', JNum a), (''end'', JNum b),
             (''loc'', mk_loc l1 l2)]"

definition mk_node :: "nat \<Rightarrow> string \<Rightarrow> int \<Rightarrow> int \<Rightarrow> (string \<times> jsval) list \<Rightarrow> jsval" where
  "mk_node i ty a b ps = JObj i ([(''type'', JStr ty), (''start'', JNum a), (''end'', JNum b)] @ ps)"

definition mk_program :: "jsval list \<Rightarrow> jsval" where
  "mk_program stmts = JObj 1000 [(''type'', JStr ''Program''), (''body'', JArr stmts)]"

definition mk_ctx :: "jsval \<Rightarrow> jsval \<Rightarrow> jsval \<Rightarrow> jsval \<Rightarrow> string \<Rightarrow> jsval \<Rightarrow> jsval \<Rightarrow> ctx" where
  "mk_ctx c p e f txt cfg stmt =
     \<lparr> comment = c, precedingNode = p, enclosingNode = e, followingNode = f,
       source_text = txt, options = cfg, ast = mk_program [stmt], isLastComment = True \<rparr>"

text \<open>
  Modelled from the spec: the module \<^verbatim>\<open>./options.js\<close> is not among the sources. It
  declares the "small set of named options affecting specific handlers", "notably a
  boolean" for the comment before \<^verbatim>\<open>else\<close>: a table with one descriptor object per
  option, which gives the option's type and default. The value chosen for a run is not in
  this table; it is in the configuration of the context. \<open>plain_env\<close> is the instance
  of the imports with this module.
\<close>

definition options_js :: jsval where
  "options_js =
     JObj 2000 [(''breakBeforeElse'',
                 JObj 2002 [(''type'', JStr ''boolean''), (''default'', JBool False)])]"

definition plain_env :: env where
  "plain_env = instance_env options_js"

text \<open>\<^verbatim>\<open>if (a /*c*/) {}\<close>: the comment sits before the closing parenthesis.\<close>

definition paren_a :: jsval where
  "paren_a = mk_node 1 ''Identifier'' 4 5 []"

definition paren_block :: jsval where
  "paren_block = mk_node 2 ''BlockStatement'' 13 15 [(''body'', JArr [])]"

definition paren_if :: jsval where
  "paren_if = mk_node 3 ''IfStatement'' 0 15
     [(''test'', paren_a), (''consequent'', paren_block), (''alternate'', Null)]"

definition paren_comment :: jsval where
  "paren_comment = mk_comment 4 ''CommentBlock'' ''c'' 6 11 1 1"

definition paren_ctx :: ctx where
  "paren_ctx = mk_ctx paren_comment paren_a paren_if paren_block ''if (a /*c*/) {}''
     (JObj 2001 []) paren_if"

text \<open>\<^verbatim>\<open>while (a /*c*/) {}\<close>.\<close>

definition paren_while :: jsval where
  "paren_while = mk_node 5 ''WhileStatement'' 0 18 [(''test'', paren_a), (''body'', paren_block)]"

definition paren_while_ctx :: ctx where
  "paren_while_ctx =
     mk_ctx (mk_comment 4 ''CommentBlock'' ''c'' 9 14 1 1) (mk_node 1 ''Identifier'' 7 8 [])
       paren_while (mk_node 2 ''BlockStatement'' 16 18 [(''body'', JArr [])])
       ''while (a /*c*/) {}'' (JObj 2001 []) paren_while"

definition nl :: string where
  "nl = [CHR 0x0A]"

text \<open>
  \<^verbatim>\<open>if (1) { x; } // c\<close>, a line break, \<^verbatim>\<open> else { y; }\<close>: the comment lies between
  the consequent and the alternate, on the line where the consequent starts.
  \<open>else_ctx\<close> is its context, with an empty configuration; in \<open>else_ctx_cuddled\<close>
  the configuration of the context has \<^verbatim>\<open>breakBeforeElse: false\<close> (the cuddled style),
  in \<open>else_ctx_break\<close> it has \<^verbatim>\<open>breakBeforeElse: true\<close>. Two more instances of the
  imports serve to tell what the decision follows; they differ from \<open>plain_env\<close> in the
  options module only, which is not the one of the program: the module of \<open>unset_env\<close>
  has no \<^verbatim>\<open>breakBeforeElse\<close> entry, the one of \<open>break_env\<close> has the entry
  \<^verbatim>\<open>true\<close>.
\<close>

definition else_cons :: jsval where
  "else_cons = mk_node 11 ''BlockStatement'' 7 13
     [(''body'', JArr [mk_node 12 ''ExpressionStatement'' 9 11 []]), (''loc'', mk_loc 1 1)]"

definition else_alt :: jsval where
  "else_alt = mk_node 13 ''BlockStatement'' 25 31
     [(''body'', JArr [mk_node 14 ''ExpressionStatement'' 27 29 []]), (''loc'', mk_loc 2 2)]"

definition else_if :: jsval where
  "else_if = mk_node 15 ''IfStatement'' 0 31
     [(''test'', mk_node 16 ''NumericLiteral'' 4 5 []), (''consequent'', else_cons),
      (''alternate'', else_alt), (''loc'', mk_loc 1 2)]"

definition else_comment :: jsval where
  "else_comment = mk_comment 17 ''CommentLine'' '' c'' 14 18 1 1"

definition else_text :: string where
  "else_text = ''if (1) { x; } // c'' @ nl @ '' else { y; }''"

definition else_ctx :: ctx where
  "else_ctx = mk_ctx else_comment else_cons else_if else_alt else_text (JObj 2001 []) else_if"

definition else_ctx_break :: ctx where
  "else_ctx_break = mk_ctx else_comment else_cons else_if else_alt else_text
     (JObj 2001 [(''breakBeforeElse'', JBool True)]) else_if"

definition else_ctx_cuddled :: ctx where
  "else_ctx_cuddled = mk_ctx else_comment else_cons else_if else_alt else_text
     (JObj 2001 [(''breakBeforeElse'', JBool False)]) else_if"

definition unset_env :: env where
  "unset_env = instance_env (JObj 2000 [])"

definition break_env :: env where
  "break_env = instance_env (JObj 2000 [(''breakBeforeElse'', JBool True)])"

text \<open>
  The same statement with the comment on a line of its own before \<^verbatim>\<open>else\<close>:
  \<^verbatim>\<open>if (1) { x; }\<close>, \<^verbatim>\<open>// c\<close>, \<^verbatim>\<open>else { y; }\<close>.
\<close>

definition else_own_comment :: jsval where
  "else_own_comment = mk_comment 17 ''CommentLine'' '' c'' 14 18 2 2"

definition else_own_alt :: jsval where
  "else_own_alt = mk_node 13 ''BlockStatement'' 24 30
     [(''body'', JArr [mk_node 14 ''ExpressionStatement'' 26 28 []]), (''loc'', mk_loc 3 3)]"

definition else_own_if :: jsval where
  "else_own_if = mk_node 15 ''IfStatement'' 0 30
     [(''test'', mk_node 16 ''NumericLiteral'' 4 5 []), (''consequent'', else_cons),
      (''alternate'', else_own_alt), (''loc'', mk_loc 1 3)]"

definition else_own_ctx :: ctx where
  "else_own_ctx = mk_ctx else_own_comment else_cons else_own_if else_own_alt
     (''if (1) { x; }'' @ nl @ ''// c'' @ nl @ ''else { y; }'') (JObj 2001 []) else_own_if"

text \<open>
  \<^verbatim>\<open>if (a) /*c*/ { ; x; }\<close> and \<^verbatim>\<open>while (a) /*c*/ { ; x; }\<close> (the same nodes, three
  characters further right): the comment is followed by a block whose first statement is
  empty.
\<close>

definition route_x :: "int \<Rightarrow> jsval" where
  "route_x k = mk_node 21 ''ExpressionStatement'' (17 + k) (19 + k) []"

definition route_stmts :: "int \<Rightarrow> jsval list" where
  "route_stmts k = [mk_node 20 ''EmptyStatement'' (15 + k) (16 + k) [], route_x k]"

definition route_block :: "int \<Rightarrow> jsval" where
  "route_block k = mk_node 22 ''BlockStatement'' (13 + k) (21 + k) [(''body'', JArr (route_stmts k))]"

definition route_comment :: "int \<Rightarrow> jsval" where
  "route_comment k = mk_comment 23 ''CommentBlock'' ''c'' (7 + k) (12 + k) 1 1"

definition route_a :: "int \<Rightarrow> jsval" where
  "route_a k = mk_node 24 ''Identifier'' (4 + k) (5 + k) []"

definition route_if :: jsval where
  "route_if = mk_node 25 ''IfStatement'' 0 21
     [(''test'', route_a 0), (''consequent'', route_block 0), (''alternate'', Null)]"

definition route_if_ctx :: ctx where
  "route_if_ctx = mk_ctx (route_comment 0) (route_a 0) route_if (route_block 0)
     ''if (a) /*c*/ { ; x; }'' (JObj 2001 []) route_if"

definition route_while :: jsval where
  "route_while = mk_node 26 ''WhileStatement'' 0 24 [(''test'', route_a 3), (''body'', route_block 3)]"

definition route_while_ctx :: ctx where
  "route_while_ctx = mk_ctx (route_comment 3) (route_a 3) route_while (route_block 3)
     ''while (a) /*c*/ { ; x; }'' (JObj 2001 []) route_while"

text \<open>\<^verbatim>\<open>try /*c*/ {} finally {}\<close>: the comment is followed by the empty try block.\<close>

definition route_try_block :: jsval where
  "route_try_block = mk_node 27 ''BlockStatement'' 10 12 [(''body'', JArr [])]"

definition route_try :: jsval where
  "route_try = mk_node 28 ''TryStatement'' 0 23
     [(''block'', route_try_block), (''handler'', Null),
      (''finalizer'', mk_node 29 ''BlockStatement'' 21 23 [(''body'', JArr [])])]"

definition route_try_comment :: jsval where
  "route_try_comment = mk_comment 23 ''CommentBlock'' ''c'' 4 9 1 1"

definition route_try_ctx :: ctx where
  "route_try_ctx = mk_ctx route_try_comment Undefined route_try route_try_block
     ''try /*c*/ {} finally {}'' (JObj 2001 []) route_try"

text \<open>\<^verbatim>\<open>class A /*c*/ {}\<close>: the comment is followed by the empty class body.\<close>

definition route_class_body :: jsval where
  "route_class_body = mk_node 30 ''ClassBody'' 14 16 [(''body'', JArr [])]"

definition route_class_id :: jsval where
  "route_class_id = mk_node 31 ''Identifier'' 6 7 []"

definition route_class :: jsval where
  "route_class = mk_node 32 ''ClassDeclaration'' 0 16
     [(''id'', route_class_id), (''superClass'', Null), (''body'', route_class_body)]"

definition route_class_comment :: jsval where
  "route_class_comment = mk_comment 23 ''CommentBlock'' ''c'' 8 13 1 1"

definition route_class_ctx :: ctx where
  "route_class_ctx = mk_ctx route_class_comment route_class_id route_class route_class_body
     ''class A /*c*/ {}'' (JObj 2001 []) route_class"

text \<open>\<^verbatim>\<open>foo(/* none */)\<close>: a call with no arguments.\<close>

definition call_callee :: jsval where
  "call_callee = mk_node 41 ''Identifier'' 0 3 []"

definition call_node :: jsval where
  "call_node = mk_node 42 ''CallExpression'' 0 15
     [(''callee'', call_callee), (''arguments'', JArr [])]"

definition call_comment :: jsval where
  "call_comment = mk_comment 43 ''CommentBlock'' '' none '' 4 14 1 1"

definition call_ctx :: ctx where
  "call_ctx = mk_ctx call_comment call_callee call_node Undefined ''foo(/* none */)''
     (JObj 2001 []) (mk_node 44 ''ExpressionStatement'' 0 15 [(''expression'', call_node)])"

text \<open>
  \<^verbatim>\<open>class A { m(/*c*/) {} }\<close>, as the parsers of \<^verbatim>\<open>getCommentChildNodes\<close> present it:
  the comment is enclosed by the method definition, between its key and the body of its
  function value.
\<close>

definition method_key :: jsval where
  "method_key = mk_node 51 ''Identifier'' 10 11 []"

definition method_body :: jsval where
  "method_body = mk_node 52 ''BlockStatement'' 19 21 [(''body'', JArr [])]"

definition method_value :: jsval where
  "method_value = mk_node 53 ''FunctionExpression'' 11 21
     [(''id'', Null), (''params'', JArr []), (''body'', method_body)]"

definition method_node :: jsval where
  "method_node = mk_node 54 ''MethodDefinition'' 10 21
     [(''key'', method_key), (''value'', method_value), (''kind'', JStr ''method'')]"

definition method_comment :: jsval where
  "method_comment = mk_comment 55 ''CommentBlock'' ''c'' 12 17 1 1"

definition method_ctx :: ctx where
  "method_ctx = mk_ctx method_comment method_key method_node method_body
     ''class A { m(/*c*/) {} }'' (JObj 2001 [])
     (mk_node 56 ''ClassDeclaration'' 0 23
        [(''id'', mk_node 57 ''Identifier'' 6 7 []),
         (''body'', mk_node 58 ''ClassBody'' 8 23 [(''body'', JArr [method_node])])])"

text \<open>
  \<^verbatim>\<open>(a, b/*c*/) => x\<close>, where the comment sits before the closing parenthesis of the
  parameters, and \<^verbatim>\<open>(a, b) /*c*/ => x\<close>, where it sits before the arrow.
\<close>

definition arrow_b :: jsval where
  "arrow_b = mk_node 62 ''Identifier'' 4 5 []"

definition arrow_x :: "int \<Rightarrow> jsval" where
  "arrow_x k = mk_node 63 ''Identifier'' (15 + k) (16 + k) []"

definition arrow_node :: "int \<Rightarrow> jsval" where
  "arrow_node k = mk_node 64 ''ArrowFunctionExpression'' 0 (16 + k)
     [(''params'', JArr [mk_node 61 ''Identifier'' 1 2 [], arrow_b]), (''body'', arrow_x k)]"

definition arrow_stmt :: "int \<Rightarrow> jsval" where
  "arrow_stmt k = mk_node 65 ''ExpressionStatement'' 0 (16 + k) [(''expression'', arrow_node k)]"

definition arrow_comment :: jsval where
  "arrow_comment = mk_comment 66 ''CommentBlock'' ''c'' 5 10 1 1"

definition arrow_ctx :: ctx where
  "arrow_ctx = mk_ctx arrow_comment arrow_b (arrow_node 0) (arrow_x 0) ''(a, b/*c*/) => x''
     (JObj 2001 []) (arrow_stmt 0)"

definition arrow_after_comment :: jsval where
  "arrow_after_comment = mk_comment 66 ''CommentBlock'' ''c'' 7 12 1 1"

definition arrow_after_ctx :: ctx where
  "arrow_after_ctx = mk_ctx arrow_after_comment arrow_b (arrow_node 1) (arrow_x 1)
     ''(a, b) /*c*/ => x'' (JObj 2001 []) (arrow_stmt 1)"

text \<open>
  \<^verbatim>\<open>switch (k) { default: // c\<close>, a line break, \<^verbatim>\<open> { s; } }\<close>: an end-of-line
  comment inside a default case, followed by a block. With \<open>k = - 1\<close> the nodes are
  those of the same statement with the comment on a line of its own, between
  \<^verbatim>\<open>default:\<close> and the block.
\<close>

definition switch_stmt :: "int \<Rightarrow> jsval" where
  "switch_stmt k = mk_node 71 ''ExpressionStatement'' (30 + k) (32 + k) []"

definition switch_block :: "int \<Rightarrow> jsval" where
  "switch_block k = mk_node 72 ''BlockStatement'' (28 + k) (34 + k) [(''body'', JArr [switch_stmt k])]"

definition switch_case :: "int \<Rightarrow> jsval" where
  "switch_case k = mk_node 73 ''SwitchCase'' 13 (34 + k)
     [(''test'', Null), (''consequent'', JArr [switch_block k])]"

definition switch_node :: "int \<Rightarrow> jsval" where
  "switch_node k = mk_node 74 ''SwitchStatement'' 0 (36 + k)
     [(''discriminant'', mk_node 75 ''Identifier'' 8 9 []), (''cases'', JArr [switch_case k])]"

definition switch_comment :: jsval where
  "switch_comment = mk_comment 76 ''CommentLine'' '' c'' 22 26 1 1"

definition switch_ctx :: ctx where
  "switch_ctx = mk_ctx switch_comment Undefined (switch_case 0) (switch_block 0)
     (''switch (k) { default: // c'' @ nl @ '' { s; } }'') (JObj 2001 []) (switch_node 0)"

definition switch_own_comment :: jsval where
  "switch_own_comment = mk_comment 76 ''CommentLine'' '' c'' 22 26 2 2"

definition switch_own_ctx :: ctx where
  "switch_own_ctx = mk_ctx switch_own_comment Undefined (switch_case (- 1)) (switch_block (- 1))
     (''switch (k) { default:'' @ nl @ ''// c'' @ nl @ ''{ s; } }'') (JObj 2001 [])
     (switch_node (- 1))"

text \<open>
  \<^verbatim>\<open>switch (k) { default: /*c*/ { s; } }\<close>: a block comment between tokens of one
  line, a remaining comment.
\<close>

definition switch_rem_comment :: jsval where
  "switch_rem_comment = mk_comment 76 ''CommentBlock'' ''c'' 22 27 1 1"

definition switch_rem_ctx :: ctx where
  "switch_rem_ctx = mk_ctx switch_rem_comment Undefined (switch_case 0) (switch_block 0)
     ''switch (k) { default: /*c*/ { s; } }'' (JObj 2001 []) (switch_node 0)"

text \<open>
  \<^verbatim>\<open>switch (k) { default: /*c*/\<close>, a line break, \<^verbatim>\<open>{ s; } }\<close>: the block
  comment at the end of the first line.
\<close>

definition switch_eol_block_ctx :: ctx where
  "switch_eol_block_ctx = mk_ctx switch_rem_comment Undefined (switch_case 0) (switch_block 0)
     (''switch (k) { default: /*c*/'' @ nl @ ''{ s; } }'') (JObj 2001 []) (switch_node 0)"

text \<open>
  \<^verbatim>\<open>switch (k) { default // c\<close>, a line break, \<^verbatim>\<open>: }\<close>: an end-of-line comment
  between \<^verbatim>\<open>default\<close> and its colon. The case has no test and no statement, so the
  comment has an enclosing node and neither a preceding nor a following node.
\<close>

definition bare_case :: jsval where
  "bare_case = mk_node 77 ''SwitchCase'' 13 27 [(''test'', Null), (''consequent'', JArr [])]"

definition bare_comment :: jsval where
  "bare_comment = mk_comment 78 ''CommentLine'' '' c'' 21 25 1 1"

definition bare_ctx :: ctx where
  "bare_ctx = mk_ctx bare_comment Undefined bare_case Undefined
     (''switch (k) { default // c'' @ nl @ '': }'') (JObj 2001 [])
     (mk_node 79 ''SwitchStatement'' 0 29
        [(''discriminant'', mk_node 75 ''Identifier'' 8 9 []), (''cases'', JArr [bare_case])])"

text \<open>
  A context the type \<^verbatim>\<open>CommentContext\<close> admits: a \<^verbatim>\<open>prettier-ignore\<close> comment on
  a line of its own, enclosed by a union type, after its last member and with no
  following node. It is built by hand, not taken from a parser: the text it carries,
  \<^verbatim>\<open>type A =\<close>, \<^verbatim>\<open>  | B\<close>, \<^verbatim>\<open>  | C\<close>, \<^verbatim>\<open>  /* prettier-ignore */\<close>, \<^verbatim>\<open>;\<close>,
  only places the comment on a line of its own, and the union node is given a range that
  encloses the comment.
\<close>

definition union_last :: jsval where
  "union_last = mk_node 82 ''TSTypeReference'' 19 20 []"

definition union_node :: jsval where
  "union_node = mk_node 83 ''TSUnionType'' 11 44
     [(''types'', JArr [mk_node 81 ''TSTypeReference'' 13 14 [], union_last])]"

definition union_comment :: jsval where
  "union_comment = mk_comment 84 ''CommentBlock'' '' prettier-ignore '' 23 44 4 4"

definition union_ctx :: ctx where
  "union_ctx = mk_ctx union_comment union_last union_node Undefined
     (''type A ='' @ nl @ ''  | B'' @ nl @ ''  | C'' @ nl @ ''  /* prettier-ignore */'' @ nl @ '';'')
     (JObj 2001 [])
     (mk_node 85 ''TSTypeAliasDeclaration'' 0 46 [(''typeAnnotation'', union_node)])"

text \<open>
  \<^verbatim>\<open>type A = { /* prettier-ignore */ [K in T]: V }\<close>: a \<^verbatim>\<open>prettier-ignore\<close> comment
  in a mapped type, before its type parameter.
\<close>

definition mapped_param :: jsval where
  "mapped_param = mk_node 92 ''TSTypeParameter'' 34 40
     [(''name'', mk_node 91 ''Identifier'' 34 35 []),
      (''constraint'', mk_node 93 ''TSTypeReference'' 39 40 [])]"

definition mapped_type :: jsval where
  "mapped_type = mk_node 94 ''TSMappedType'' 9 46
     [(''typeParameter'', mapped_param),
      (''typeAnnotation'', mk_node 95 ''TSTypeReference'' 43 44 [])]"

definition mapped_comment :: jsval where
  "mapped_comment = mk_comment 96 ''CommentBlock'' '' prettier-ignore '' 11 32 1 1"

definition mapped_ctx :: ctx where
  "mapped_ctx = mk_ctx mapped_comment Undefined mapped_type mapped_param
     ''type A = { /* prettier-ignore */ [K in T]: V }'' (JObj 2001 [])
     (mk_node 97 ''TSTypeAliasDeclaration'' 0 46 [(''typeAnnotation'', mapped_type)])"

definition mapped_store :: store where
  "mapped_store = \<lparr> attachments = [], prettierIgnore = [mapped_type], unignore = [mapped_comment] \<rparr>"

text \<open>
  \<^verbatim>\<open>const x = /** @type {T} */\<close>, a line break, \<^verbatim>\<open>  (y);\<close>: a type-cast comment at
  the end of its line, followed by the expression \<^verbatim>\<open>y\<close>.
\<close>

definition cast_y :: jsval where
  "cast_y = mk_node 102 ''Identifier'' 30 31 []"

definition cast_x :: jsval where
  "cast_x = mk_node 101 ''Identifier'' 6 7 []"

definition cast_declarator :: jsval where
  "cast_declarator = mk_node 103 ''VariableDeclarator'' 6 32 [(''id'', cast_x), (''init'', cast_y)]"

definition cast_comment :: jsval where
  "cast_comment = mk_comment 104 ''CommentBlock'' ''* @type {T} '' 10 26 1 1"

definition cast_ctx :: ctx where
  "cast_ctx = mk_ctx cast_comment cast_x cast_declarator cast_y
     (''const x = /** @type {T} */'' @ nl @ ''  (y);'') (JObj 2001 [])
     (mk_node 105 ''VariableDeclaration'' 0 33 [(''declarations'', JArr [cast_declarator])])"

section \<open>Evaluation rules\<close>

lemma bindE_simps [simp]:
  "bindE (Inl e) f = Inl e"
  "bindE (Inr v) f = f v"
  by (simp_all add: bindE_def)

lemma mapE_simps [simp]:
  "mapE g (Inl e) = Inl e"
  "mapE g (Inr v) = Inr (g v)"
  by (simp_all add: mapE_def)

lemma andE_simps [simp]:
  "andE (Inl e) b = Inl e"
  "andE (Inr x) b = (if x then b else Inr False)"
  by (simp_all add: andE_def)

lemma orE_simps [simp]:
  "orE (Inl e) b = Inl e"
  "orE (Inr x) b = (if x then Inr True else b)"
  by (simp_all add: orE_def)

lemma ifE_simps [simp]:
  "ifE (Inl e) a b = Inl e"
  "ifE (Inr x) a b = (if x then a else b)"
  by (simp_all add: ifE_def)

lemma claimed_simps [simp]:
  "claimed (Inl e) = Inl e"
  "claimed (Inr s) = Inr (True, s)"
  by (simp_all add: claimed_def)

lemma strict_eq_objects [simp]: "strict_eq (JObj i ps) (JObj j qs) = (i = j)"
  by (simp add: strict_eq_def)

lemma strict_eq_string [simp]: "strict_eq v (JStr t) = (v = JStr t)"
  by (cases v) (auto simp: strict_eq_def)

lemma strict_eq_number [simp]: "strict_eq v (JNum n) = (v = JNum n)"
  by (cases v) (auto simp: strict_eq_def)

lemma eq_str_iff [simp]: "eq_str v t = (v = JStr t)"
  by (simp add: eq_str_def)

lemma opt_simps [simp]:
  "opt Undefined k = Undefined"
  "opt Null k = Undefined"
  "opt (JObj i ps) k = lookup ps k"
  by (simp_all add: opt_def)

lemma lookup_simps [simp]:
  "lookup [] k = Undefined"
  "lookup ((k', v) # ps) k = (if k' = k then v else lookup ps k)"
  by (simp_all add: lookup_def)

lemma add_comment_object [simp]:
  "is_object node \<Longrightarrow> is_object c \<Longrightarrow>
     addLeadingComment node c s = Inr (commit s node Leading c None)"
  "is_object node \<Longrightarrow> is_object c \<Longrightarrow>
     addTrailingComment node c s = Inr (commit s node Trailing c None)"
  "is_object node \<Longrightarrow> is_object c \<Longrightarrow>
     addDanglingComment node c m s =
       Inr (commit s node Dangling c (if truthy m then Some m else None))"
  by (simp_all add: addLeadingComment_def addTrailingComment_def addDanglingComment_def
      addCommentHelper_def)

lemma get_object [simp]: "is_object x \<Longrightarrow> get x k = Inr (opt x k)"
  by (cases x) (simp_all add: opt_def)

lemma is_object_truthy [simp]: "is_object x \<Longrightarrow> truthy x"
  by (cases x) simp_all

lemma strict_eq_object_right: "strict_eq x (JObj i ps) = (\<exists>qs. x = JObj i qs)"
  by (cases x) (simp_all add: strict_eq_def)

lemma strict_eq_object_left: "strict_eq (JObj i ps) x = (\<exists>qs. x = JObj i qs)"
  by (cases x) (auto simp: strict_eq_def)

lemma is_node_object: "is_node x \<Longrightarrow> is_object x"
  by (cases x) simp_all

lemma is_nodeE: "is_node x \<Longrightarrow> (\<And>i ps. x = JObj i ps \<Longrightarrow> P) \<Longrightarrow> P"
  by (cases x) simp_all

section \<open>Comments routed to a block\<close>

lemma find_non_empty_nodes:
  "list_all is_node xs \<Longrightarrow>
     find_non_empty xs =
       Inr (case first_non_empty_statement xs of None \<Rightarrow> Undefined | Some x \<Rightarrow> x)"
  by (induction xs) (auto simp: first_non_empty_statement_def)

lemma first_non_empty_is_node:
  "list_all is_node xs \<Longrightarrow> first_non_empty_statement xs = Some x \<Longrightarrow> is_node x"
  unfolding first_non_empty_statement_def
  by (induction xs) (auto split: if_splits)

lemma addBlockStatementFirstComment_block:
  assumes "is_node blk" and "opt blk ''body'' = JArr stmts"
    and "list_all is_node stmts" and "is_object c"
  shows "addBlockStatementFirstComment blk c s = Inr (block_first_outcome s blk stmts c)"
proof (cases "first_non_empty_statement stmts")
  case None
  with assms show ?thesis
    by (simp add: addBlockStatementFirstComment_def array_find_non_empty_def
        find_non_empty_nodes block_first_outcome_def is_node_object)
next
  case (Some first)
  with assms(3) have "is_node first" by (rule first_non_empty_is_node)
  with Some assms show ?thesis
    by (simp add: addBlockStatementFirstComment_def array_find_non_empty_def
        find_non_empty_nodes is_node_object block_first_outcome_def)
qed

text \<open>
  C6. A comment routed to a block statement becomes the leading comment of the block's
  first child whose type is not \<^verbatim>\<open>EmptyStatement\<close>, and a dangling comment of the block
  when it has no such child. This is what \<open>addBlockStatementFirstComment\<close> does on a
  block whose body is a list of nodes, and it is the decision of the if, while, try and
  class handlers when they route the comment to the following block: the if handler when
  the comment is not before the closing parenthesis and not between the consequent and
  the alternate, the while handler when it is not before the closing parenthesis, the
  try handler inside a try statement (or a catch clause with no preceding node), and the
  class handler when the following node is the body of the class.
\<close>

theorem block_first_comment:
  assumes blk: "is_node blk" "opt blk ''body'' = JArr stmts" "list_all is_node stmts"
    and c: "is_object (comment ctx)"
    and e: "is_node (enclosingNode ctx)"
  shows
    "addBlockStatementFirstComment blk (comment ctx) s =
       Inr (block_first_outcome s blk stmts (comment ctx)) \<and>
     (followingNode ctx = blk \<and> opt blk ''type'' = JStr ''BlockStatement'' \<and>
      opt (enclosingNode ctx) ''type'' = JStr ''IfStatement'' \<and>
      getNextNonSpaceNonCommentCharacter E (source_text ctx) (comment ctx) (locEnd E) \<noteq> '')'' \<and>
      \<not> (strict_eq (precedingNode ctx) (opt (enclosingNode ctx) ''consequent'') \<and>
         strict_eq blk (opt (enclosingNode ctx) ''alternate'')) \<longrightarrow>
        handleIfStatementComments E ctx s =
          Inr (True, block_first_outcome s blk stmts (comment ctx))) \<and>
     (followingNode ctx = blk \<and> opt blk ''type'' = JStr ''BlockStatement'' \<and>
      opt (enclosingNode ctx) ''type'' = JStr ''WhileStatement'' \<and>
      getNextNonSpaceNonCommentCharacter E (source_text ctx) (comment ctx) (locEnd E) \<noteq> '')'' \<longrightarrow>
        handleWhileComments E ctx s =
          Inr (True, block_first_outcome s blk stmts (comment ctx))) \<and>
     (followingNode ctx = blk \<and> opt blk ''type'' = JStr ''BlockStatement'' \<and>
      (opt (enclosingNode ctx) ''type'' = JStr ''TryStatement'' \<or>
       opt (enclosingNode ctx) ''type'' = JStr ''CatchClause'' \<and> \<not> truthy (precedingNode ctx)) \<longrightarrow>
        handleTryStatementComments E ctx s =
          Inr (True, block_first_outcome s blk stmts (comment ctx))) \<and>
     (set_has classLikeNodeTypes (opt (enclosingNode ctx) ''type'') \<and>
      \<not> (isNonEmptyArray E (opt (enclosingNode ctx) ''decorators'') \<and>
         opt (followingNode ctx) ''type'' \<noteq> JStr ''Decorator'') \<and>
      opt (enclosingNode ctx) ''body'' = blk \<and> strict_eq (followingNode ctx) blk \<longrightarrow>
        handleClassComments E ctx s =
          Inr (True, block_first_outcome s blk stmts (comment ctx)))"
proof -
  from e obtain ei eps where e': "enclosingNode ctx = JObj ei eps" by (rule is_nodeE)
  from blk(1) obtain b bp where b': "blk = JObj b bp" by (rule is_nodeE)
  note core = addBlockStatementFirstComment_block [OF blk c]
  show ?thesis
  proof (intro conjI impI)
    show "addBlockStatementFirstComment blk (comment ctx) s =
         Inr (block_first_outcome s blk stmts (comment ctx))"
      by (rule core)
  next
    assume "followingNode ctx = blk \<and> opt blk ''type'' = JStr ''BlockStatement'' \<and>
        opt (enclosingNode ctx) ''type'' = JStr ''IfStatement'' \<and>
        getNextNonSpaceNonCommentCharacter E (source_text ctx) (comment ctx) (locEnd E) \<noteq> '')'' \<and>
        \<not> (strict_eq (precedingNode ctx) (opt (enclosingNode ctx) ''consequent'') \<and>
           strict_eq blk (opt (enclosingNode ctx) ''alternate''))"
    then show "handleIfStatementComments E ctx s =
            Inr (True, block_first_outcome s blk stmts (comment ctx))"
      using e' b' core by (auto simp: handleIfStatementComments_def)
  next
    assume "followingNode ctx = blk \<and> opt blk ''type'' = JStr ''BlockStatement'' \<and>
        opt (enclosingNode ctx) ''type'' = JStr ''WhileStatement'' \<and>
        getNextNonSpaceNonCommentCharacter E (source_text ctx) (comment ctx) (locEnd E) \<noteq> '')''"
    then show "handleWhileComments E ctx s =
            Inr (True, block_first_outcome s blk stmts (comment ctx))"
      using e' b' core by (auto simp: handleWhileComments_def)
  next
    assume "followingNode ctx = blk \<and> opt blk ''type'' = JStr ''BlockStatement'' \<and>
        (opt (enclosingNode ctx) ''type'' = JStr ''TryStatement'' \<or>
         opt (enclosingNode ctx) ''type'' = JStr ''CatchClause'' \<and> \<not> truthy (precedingNode ctx))"
    then show "handleTryStatementComments E ctx s =
            Inr (True, block_first_outcome s blk stmts (comment ctx))"
      using e' b' core by (auto simp: handleTryStatementComments_def)
  next
    assume a: "set_has classLikeNodeTypes (opt (enclosingNode ctx) ''type'') \<and>
        \<not> (isNonEmptyArray E (opt (enclosingNode ctx) ''decorators'') \<and>
           opt (followingNode ctx) ''type'' \<noteq> JStr ''Decorator'') \<and>
        opt (enclosingNode ctx) ''body'' = blk \<and> strict_eq (followingNode ctx) blk"
    then have f: "is_object (followingNode ctx)"
      using b' by (auto simp: strict_eq_object_right)
    from a f show "handleClassComments E ctx s =
            Inr (True, block_first_outcome s blk stmts (comment ctx))"
      using e' b' core by (auto simp: handleClassComments_def)
  qed
qed

text \<open>
  The theorem at four inputs: in \<^verbatim>\<open>if (a) /*c*/ { ; x; }\<close> and
  \<^verbatim>\<open>while (a) /*c*/ { ; x; }\<close> the comment leads the statement \<^verbatim>\<open>x;\<close>, past the
  empty statement; in \<^verbatim>\<open>try /*c*/ {} finally {}\<close> and \<^verbatim>\<open>class A /*c*/ {}\<close> it
  dangles on the empty block and on the empty class body.
\<close>

theorem block_first_comment_witness:
  "handleIfStatementComments plain_env route_if_ctx empty_store =
     Inr (True, commit empty_store (route_x 0) Leading (route_comment 0) None) \<and>
   handleWhileComments plain_env route_while_ctx empty_store =
     Inr (True, commit empty_store (route_x 3) Leading (route_comment 3) None) \<and>
   handleTryStatementComments plain_env route_try_ctx empty_store =
     Inr (True, commit empty_store route_try_block Dangling route_try_comment None) \<and>
   handleClassComments plain_env route_class_ctx empty_store =
     Inr (True, commit empty_store route_class_body Dangling route_class_comment None)"
proof -
  have i1: "is_node (route_block 0)" by code_simp
  have i2: "opt (route_block 0) ''body'' = JArr (route_stmts 0)" by code_simp
  have i3: "list_all is_node (route_stmts 0)" by code_simp
  have i4: "is_object (comment route_if_ctx)" by code_simp
  have i5: "is_node (enclosingNode route_if_ctx)" by code_simp
  have i6: "followingNode route_if_ctx = route_block 0 \<and>
      opt (route_block 0) ''type'' = JStr ''BlockStatement'' \<and>
      opt (enclosingNode route_if_ctx) ''type'' = JStr ''IfStatement'' \<and>
      getNextNonSpaceNonCommentCharacter plain_env (source_text route_if_ctx)
        (comment route_if_ctx) (locEnd plain_env) \<noteq> '')'' \<and>
      \<not> (strict_eq (precedingNode route_if_ctx) (opt (enclosingNode route_if_ctx) ''consequent'') \<and>
         strict_eq (route_block 0) (opt (enclosingNode route_if_ctx) ''alternate''))"
    by code_simp
  have i7: "block_first_outcome empty_store (route_block 0) (route_stmts 0) (comment route_if_ctx) =
      commit empty_store (route_x 0) Leading (route_comment 0) None"
    by code_simp
  have w1: "is_node (route_block 3)" by code_simp
  have w2: "opt (route_block 3) ''body'' = JArr (route_stmts 3)" by code_simp
  have w3: "list_all is_node (route_stmts 3)" by code_simp
  have w4: "is_object (comment route_while_ctx)" by code_simp
  have w5: "is_node (enclosingNode route_while_ctx)" by code_simp
  have w6: "followingNode route_while_ctx = route_block 3 \<and>
      opt (route_block 3) ''type'' = JStr ''BlockStatement'' \<and>
      opt (enclosingNode route_while_ctx) ''type'' = JStr ''WhileStatement'' \<and>
      getNextNonSpaceNonCommentCharacter plain_env (source_text route_while_ctx)
        (comment route_while_ctx) (locEnd plain_env) \<noteq> '')''"
    by code_simp
  have w7: "block_first_outcome empty_store (route_block 3) (route_stmts 3)
      (comment route_while_ctx) = commit empty_store (route_x 3) Leading (route_comment 3) None"
    by code_simp
  have t1: "is_node route_try_block" by code_simp
  have t2: "opt route_try_block ''body'' = JArr []" by code_simp
  have t3: "list_all is_node []" by simp
  have t4: "is_object (comment route_try_ctx)" by code_simp
  have t5: "is_node (enclosingNode route_try_ctx)" by code_simp
  have t6: "followingNode route_try_ctx = route_try_block \<and>
      opt route_try_block ''type'' = JStr ''BlockStatement'' \<and>
      (opt (enclosingNode route_try_ctx) ''type'' = JStr ''TryStatement'' \<or>
       opt (enclosingNode route_try_ctx) ''type'' = JStr ''CatchClause'' \<and>
       \<not> truthy (precedingNode route_try_ctx))"
    by code_simp
  have t7: "block_first_outcome empty_store route_try_block [] (comment route_try_ctx) =
      commit empty_store route_try_block Dangling route_try_comment None"
    by code_simp
  have c1: "is_node route_class_body" by code_simp
  have c2: "opt route_class_body ''body'' = JArr []" by code_simp
  have c4: "is_object (comment route_class_ctx)" by code_simp
  have c5: "is_node (enclosingNode route_class_ctx)" by code_simp
  have c6: "set_has classLikeNodeTypes (opt (enclosingNode route_class_ctx) ''type'') \<and>
      \<not> (isNonEmptyArray plain_env (opt (enclosingNode route_class_ctx) ''decorators'') \<and>
         opt (followingNode route_class_ctx) ''type'' \<noteq> JStr ''Decorator'') \<and>
      opt (enclosingNode route_class_ctx) ''body'' = route_class_body \<and>
      strict_eq (followingNode route_class_ctx) route_class_body"
    by code_simp
  have c7: "block_first_outcome empty_store route_class_body [] (comment route_class_ctx) =
      commit empty_store route_class_body Dangling route_class_comment None"
    by code_simp
  from block_first_comment [OF i1 i2 i3 i4 i5, of empty_store plain_env] i6 i7
  have r1: "handleIfStatementComments plain_env route_if_ctx empty_store =
     Inr (True, commit empty_store (route_x 0) Leading (route_comment 0) None)"
    by simp
  from block_first_comment [OF w1 w2 w3 w4 w5, of empty_store plain_env] w6 w7
  have r2: "handleWhileComments plain_env route_while_ctx empty_store =
     Inr (True, commit empty_store (route_x 3) Leading (route_comment 3) None)"
    by simp
  from block_first_comment [OF t1 t2 t3 t4 t5, of empty_store plain_env] t6 t7
  have r3: "handleTryStatementComments plain_env route_try_ctx empty_store =
     Inr (True, commit empty_store route_try_block Dangling route_try_comment None)"
    by simp
  from block_first_comment [OF c1 c2 t3 c4 c5, of empty_store plain_env] c6 c7
  have r4: "handleClassComments plain_env route_class_ctx empty_store =
     Inr (True, commit empty_store route_class_body Dangling route_class_comment None)"
    by simp
  from r1 r2 r3 r4 show ?thesis by simp
qed

section \<open>Comments before a closing parenthesis\<close>

text \<open>
  C4. Inside an if statement, and in the same way inside a while statement, with a
  following node present: when the next character after the comment that is neither
  white space nor part of a comment is the closing parenthesis, the handler attaches the
  comment as a trailing comment of the preceding node, the condition expression. For a
  remaining comment this is the decision of the chain.
\<close>

theorem condition_parenthesis:
  assumes "truthy (followingNode ctx)" and "is_object (precedingNode ctx)"
    and "is_object (comment ctx)"
    and "getNextNonSpaceNonCommentCharacter E (source_text ctx) (comment ctx) (locEnd E) = '')''"
  shows "(opt (enclosingNode ctx) ''type'' = JStr ''IfStatement'' \<longrightarrow>
            handleIfStatementComments E ctx s =
              Inr (True, commit s (precedingNode ctx) Trailing (comment ctx) None) \<and>
            handleRemainingComment E ctx s =
              Inr (True, commit s (precedingNode ctx) Trailing (comment ctx) None)) \<and>
         (opt (enclosingNode ctx) ''type'' = JStr ''WhileStatement'' \<longrightarrow>
            handleWhileComments E ctx s =
              Inr (True, commit s (precedingNode ctx) Trailing (comment ctx) None) \<and>
            handleRemainingComment E ctx s =
              Inr (True, commit s (precedingNode ctx) Trailing (comment ctx) None))"
proof (intro conjI impI)
  assume t: "opt (enclosingNode ctx) ''type'' = JStr ''IfStatement''"
  with assms show h: "handleIfStatementComments E ctx s =
      Inr (True, commit s (precedingNode ctx) Trailing (comment ctx) None)"
    by (simp add: handleIfStatementComments_def)
  from t have "handleIgnoreComments E ctx s = Inr (False, s)"
    by (simp add: handleIgnoreComments_def declined_def)
  with h show "handleRemainingComment E ctx s =
      Inr (True, commit s (precedingNode ctx) Trailing (comment ctx) None)"
    by (simp add: handleRemainingComment_def remainingHandlers_def)
next
  assume t: "opt (enclosingNode ctx) ''type'' = JStr ''WhileStatement''"
  with assms show h: "handleWhileComments E ctx s =
      Inr (True, commit s (precedingNode ctx) Trailing (comment ctx) None)"
    by (simp add: handleWhileComments_def)
  from t have "handleIgnoreComments E ctx s = Inr (False, s)"
    by (simp add: handleIgnoreComments_def declined_def)
  moreover from t have "handleIfStatementComments E ctx s = Inr (False, s)"
    by (simp add: handleIfStatementComments_def declined_def)
  ultimately show "handleRemainingComment E ctx s =
      Inr (True, commit s (precedingNode ctx) Trailing (comment ctx) None)"
    using h by (simp add: handleRemainingComment_def remainingHandlers_def)
qed

text \<open>
  The theorem at \<^verbatim>\<open>if (a /*c*/) {}\<close> and at \<^verbatim>\<open>while (a /*c*/) {}\<close>: the comment
  becomes a trailing comment of the expression \<^verbatim>\<open>a\<close>.
\<close>

theorem condition_parenthesis_witness:
  "handleIfStatementComments plain_env paren_ctx empty_store =
     Inr (True, commit empty_store paren_a Trailing paren_comment None) \<and>
   handleRemainingComment plain_env paren_ctx empty_store =
     Inr (True, commit empty_store paren_a Trailing paren_comment None) \<and>
   handleWhileComments plain_env paren_while_ctx empty_store =
     Inr (True, commit empty_store (precedingNode paren_while_ctx) Trailing
                  (comment paren_while_ctx) None) \<and>
   handleRemainingComment plain_env paren_while_ctx empty_store =
     Inr (True, commit empty_store (precedingNode paren_while_ctx) Trailing
                  (comment paren_while_ctx) None)"
proof -
  have i1: "truthy (followingNode paren_ctx)" by code_simp
  have i2: "is_object (precedingNode paren_ctx)" by code_simp
  have i3: "is_object (comment paren_ctx)" by code_simp
  have i4: "getNextNonSpaceNonCommentCharacter plain_env (source_text paren_ctx)
              (comment paren_ctx) (locEnd plain_env) = '')''" by code_simp
  have i5: "opt (enclosingNode paren_ctx) ''type'' = JStr ''IfStatement''" by code_simp
  have i6: "precedingNode paren_ctx = paren_a" "comment paren_ctx = paren_comment"
    by (simp_all add: paren_ctx_def mk_ctx_def)
  have w1: "truthy (followingNode paren_while_ctx)" by code_simp
  have w2: "is_object (precedingNode paren_while_ctx)" by code_simp
  have w3: "is_object (comment paren_while_ctx)" by code_simp
  have w4: "getNextNonSpaceNonCommentCharacter plain_env (source_text paren_while_ctx)
              (comment paren_while_ctx) (locEnd plain_env) = '')''" by code_simp
  have w5: "opt (enclosingNode paren_while_ctx) ''type'' = JStr ''WhileStatement''" by code_simp
  from condition_parenthesis [OF i1 i2 i3 i4, of empty_store] i5 i6
  have r1: "handleIfStatementComments plain_env paren_ctx empty_store =
     Inr (True, commit empty_store paren_a Trailing paren_comment None) \<and>
   handleRemainingComment plain_env paren_ctx empty_store =
     Inr (True, commit empty_store paren_a Trailing paren_comment None)"
    by simp
  from condition_parenthesis [OF w1 w2 w3 w4, of empty_store] w5
  have r2: "handleWhileComments plain_env paren_while_ctx empty_store =
     Inr (True, commit empty_store (precedingNode paren_while_ctx) Trailing
                  (comment paren_while_ctx) None) \<and>
   handleRemainingComment plain_env paren_while_ctx empty_store =
     Inr (True, commit empty_store (precedingNode paren_while_ctx) Trailing
                  (comment paren_while_ctx) None)"
    by simp
  from r1 r2 show ?thesis by simp
qed

section \<open>Comments before \<open>else\<close>\<close>

text \<open>
  C5. The rule for a comment between the consequent of an if statement (the preceding
  node) and its alternate (the following node) is not decided by the configuration of the
  context. Whatever configuration \<open>cfg\<close> the context carries, cuddled or not,
  \<open>handleIfStatementComments\<close> decides on the \<^verbatim>\<open>breakBeforeElse\<close> entry of the
  module-level \<open>required_options\<close>: when the consequent is a block statement and that
  entry is falsy, the comment becomes a trailing comment of the consequent; otherwise,
  when it is a single-line comment that starts on the line where the consequent starts, it
  becomes a dangling comment of the consequent with the marker for a same-line comment of
  an if without block; otherwise it becomes a dangling comment of the if statement. In the
  options module the entry is the descriptor of the option, an object, which is truthy:
  there a configuration that selects the cuddled style does not get the comment trailing
  on the consequent block.
\<close>

theorem comment_before_else:
  assumes e: "is_node (enclosingNode ctx)" "opt (enclosingNode ctx) ''type'' = JStr ''IfStatement''"
    and p: "is_node (precedingNode ctx)"
      "strict_eq (precedingNode ctx) (opt (enclosingNode ctx) ''consequent'')"
    and f: "truthy (followingNode ctx)"
      "strict_eq (followingNode ctx) (opt (enclosingNode ctx) ''alternate'')"
    and c: "is_object (comment ctx)"
    and nxt: "getNextNonSpaceNonCommentCharacter E (source_text ctx) (comment ctx) (locEnd E) \<noteq> '')''"
    and lines: "get3 (comment ctx) ''loc'' ''start'' ''line'' = Inr cl1"
      "get3 (comment ctx) ''loc'' ''end'' ''line'' = Inr cl2"
      "get3 (precedingNode ctx) ''loc'' ''start'' ''line'' = Inr pl"
    and opts: "get (required_options E) ''breakBeforeElse'' = Inr bbe"
    and mk: "truthy (markerForIfWithoutBlockAndSameLineComment E)"
  shows "handleIfStatementComments E (ctx\<lparr>options := cfg\<rparr>) s =
     Inr (True,
       if opt (precedingNode ctx) ''type'' = JStr ''BlockStatement'' \<and> \<not> truthy bbe
       then commit s (precedingNode ctx) Trailing (comment ctx) None
       else if (opt (comment ctx) ''type'' = JStr ''SingleLine'' \<or> strict_eq cl1 cl2) \<and>
               strict_eq cl1 pl
       then commit s (precedingNode ctx) Dangling (comment ctx)
              (Some (markerForIfWithoutBlockAndSameLineComment E))
       else commit s (enclosingNode ctx) Dangling (comment ctx) None)"
proof -
  from e(1) obtain ei eps where "enclosingNode ctx = JObj ei eps" by (rule is_nodeE)
  moreover from p(1) obtain pi pps where "precedingNode ctx = JObj pi pps" by (rule is_nodeE)
  ultimately show ?thesis
    using assms by (auto simp: handleIfStatementComments_def)
qed

text \<open>
  The theorem at \<^verbatim>\<open>if (1) { x; } // c\<close>, \<^verbatim>\<open>else { y; }\<close>, where the consequent is a
  block. With the options module of the program, the context whose configuration selects
  the cuddled style (\<^verbatim>\<open>breakBeforeElse: false\<close>) gets the comment dangling on the
  consequent with the marker, not trailing on it, from the handler and from the chain for
  end-of-line comments; so does the context whose configuration sets
  \<^verbatim>\<open>breakBeforeElse\<close>. With an options module that has no such entry, the comment is
  trailing on the consequent although the configuration of the context sets
  \<^verbatim>\<open>breakBeforeElse\<close>. With the comment on a line of its own, it dangles on the if
  statement.
\<close>

theorem comment_before_else_witness:
  "handleIfStatementComments plain_env else_ctx_cuddled empty_store =
     Inr (True, commit empty_store else_cons Dangling else_comment
                  (Some (JStr ''ifWithoutBlockAndSameLineComment''))) \<and>
   handleIfStatementComments plain_env else_ctx_cuddled empty_store \<noteq>
     Inr (True, commit empty_store else_cons Trailing else_comment None) \<and>
   handleEndOfLineComment plain_env else_ctx_cuddled empty_store =
     handleIfStatementComments plain_env else_ctx_cuddled empty_store \<and>
   handleIfStatementComments plain_env else_ctx_break empty_store =
     Inr (True, commit empty_store else_cons Dangling else_comment
                  (Some (JStr ''ifWithoutBlockAndSameLineComment''))) \<and>
   handleIfStatementComments unset_env else_ctx_break empty_store =
     Inr (True, commit empty_store else_cons Trailing else_comment None) \<and>
   handleIfStatementComments plain_env else_own_ctx empty_store =
     Inr (True, commit empty_store else_own_if Dangling else_own_comment None)"
proof -
  have u1: "else_ctx_cuddled =
              else_ctx\<lparr>options := JObj 2001 [(''breakBeforeElse'', JBool False)]\<rparr>"
    by (simp add: else_ctx_cuddled_def else_ctx_def mk_ctx_def)
  have u2: "else_ctx_break =
              else_ctx\<lparr>options := JObj 2001 [(''breakBeforeElse'', JBool True)]\<rparr>"
    by (simp add: else_ctx_break_def else_ctx_def mk_ctx_def)
  have u3: "else_own_ctx\<lparr>options := JObj 2001 []\<rparr> = else_own_ctx"
    by (simp add: else_own_ctx_def mk_ctx_def)
  have h1: "is_node (enclosingNode else_ctx)" by code_simp
  have h2: "opt (enclosingNode else_ctx) ''type'' = JStr ''IfStatement''" by code_simp
  have h3: "is_node (precedingNode else_ctx)" by code_simp
  have h4: "strict_eq (precedingNode else_ctx) (opt (enclosingNode else_ctx) ''consequent'')"
    by code_simp
  have h5: "truthy (followingNode else_ctx)" by code_simp
  have h6: "strict_eq (followingNode else_ctx) (opt (enclosingNode else_ctx) ''alternate'')"
    by code_simp
  have h7: "is_object (comment else_ctx)" by code_simp
  have h8: "getNextNonSpaceNonCommentCharacter plain_env (source_text else_ctx)
              (comment else_ctx) (locEnd plain_env) \<noteq> '')''"
    by code_simp
  have h8': "getNextNonSpaceNonCommentCharacter unset_env (source_text else_ctx)
              (comment else_ctx) (locEnd unset_env) \<noteq> '')''"
    by code_simp
  have h9: "get3 (comment else_ctx) ''loc'' ''start'' ''line'' = Inr (JNum 1)" by code_simp
  have h10: "get3 (comment else_ctx) ''loc'' ''end'' ''line'' = Inr (JNum 1)" by code_simp
  have h11: "get3 (precedingNode else_ctx) ''loc'' ''start'' ''line'' = Inr (JNum 1)"
    by code_simp
  have h12: "get (required_options plain_env) ''breakBeforeElse'' =
               Inr (JObj 2002 [(''type'', JStr ''boolean''), (''default'', JBool False)])"
    by code_simp
  have h12': "get (required_options unset_env) ''breakBeforeElse'' = Inr Undefined"
    by code_simp
  have h13: "truthy (markerForIfWithoutBlockAndSameLineComment plain_env)" by code_simp
  have h13': "truthy (markerForIfWithoutBlockAndSameLineComment unset_env)" by code_simp
  have v1: "opt (precedingNode else_ctx) ''type'' = JStr ''BlockStatement''" by code_simp
  have v2: "precedingNode else_ctx = else_cons" "comment else_ctx = else_comment"
    by (simp_all add: else_ctx_def mk_ctx_def)
  have v3: "markerForIfWithoutBlockAndSameLineComment plain_env =
              JStr ''ifWithoutBlockAndSameLineComment''"
    by code_simp
  have o1: "is_node (enclosingNode else_own_ctx)" by code_simp
  have o2: "opt (enclosingNode else_own_ctx) ''type'' = JStr ''IfStatement''" by code_simp
  have o3: "is_node (precedingNode else_own_ctx)" by code_simp
  have o4: "strict_eq (precedingNode else_own_ctx)
              (opt (enclosingNode else_own_ctx) ''consequent'')"
    by code_simp
  have o5: "truthy (followingNode else_own_ctx)" by code_simp
  have o6: "strict_eq (followingNode else_own_ctx)
              (opt (enclosingNode else_own_ctx) ''alternate'')"
    by code_simp
  have o7: "is_object (comment else_own_ctx)" by code_simp
  have o8: "getNextNonSpaceNonCommentCharacter plain_env (source_text else_own_ctx)
              (comment else_own_ctx) (locEnd plain_env) \<noteq> '')''"
    by code_simp
  have o9: "get3 (comment else_own_ctx) ''loc'' ''start'' ''line'' = Inr (JNum 2)" by code_simp
  have o10: "get3 (comment else_own_ctx) ''loc'' ''end'' ''line'' = Inr (JNum 2)" by code_simp
  have o11: "get3 (precedingNode else_own_ctx) ''loc'' ''start'' ''line'' = Inr (JNum 1)"
    by code_simp
  have v4: "enclosingNode else_own_ctx = else_own_if" "comment else_own_ctx = else_own_comment"
    by (simp_all add: else_own_ctx_def mk_ctx_def)
  have n: "commit empty_store else_cons Dangling else_comment
             (Some (JStr ''ifWithoutBlockAndSameLineComment'')) \<noteq>
           commit empty_store else_cons Trailing else_comment None"
    by (simp add: commit_def empty_store_def)
  have ch: "handleEndOfLineComment plain_env else_ctx_cuddled empty_store =
     handleIfStatementComments plain_env else_ctx_cuddled empty_store"
    by code_simp
  from comment_before_else [OF h1 h2 h3 h4 h5 h6 h7 h8 h9 h10 h11 h12 h13,
         where s = empty_store and cfg = "JObj 2001 [(''breakBeforeElse'', JBool False)]"]
       v1 v2 v3
  have r1: "handleIfStatementComments plain_env else_ctx_cuddled empty_store =
     Inr (True, commit empty_store else_cons Dangling else_comment
                  (Some (JStr ''ifWithoutBlockAndSameLineComment'')))"
    unfolding u1 by simp
  from r1 n
  have r2: "handleIfStatementComments plain_env else_ctx_cuddled empty_store \<noteq>
     Inr (True, commit empty_store else_cons Trailing else_comment None)"
    by simp
  from comment_before_else [OF h1 h2 h3 h4 h5 h6 h7 h8 h9 h10 h11 h12 h13,
         where s = empty_store and cfg = "JObj 2001 [(''breakBeforeElse'', JBool True)]"]
       v1 v2 v3
  have r3: "handleIfStatementComments plain_env else_ctx_break empty_store =
     Inr (True, commit empty_store else_cons Dangling else_comment
                  (Some (JStr ''ifWithoutBlockAndSameLineComment'')))"
    unfolding u2 by simp
  from comment_before_else [OF h1 h2 h3 h4 h5 h6 h7 h8' h9 h10 h11 h12' h13',
         where s = empty_store and cfg = "JObj 2001 [(''breakBeforeElse'', JBool True)]"]
       v1 v2
  have r4: "handleIfStatementComments unset_env else_ctx_break empty_store =
     Inr (True, commit empty_store else_cons Trailing else_comment None)"
    unfolding u2 by simp
  from comment_before_else [OF o1 o2 o3 o4 o5 o6 o7 o8 o9 o10 o11 h12 h13,
         where s = empty_store and cfg = "JObj 2001 []"]
       v4
  have r5: "handleIfStatementComments plain_env (else_own_ctx\<lparr>options := JObj 2001 []\<rparr>)
              empty_store =
     Inr (True, commit empty_store else_own_if Dangling else_own_comment None)"
    by simp
  from r5
  have r6: "handleIfStatementComments plain_env else_own_ctx empty_store =
     Inr (True, commit empty_store else_own_if Dangling else_own_comment None)"
    unfolding u3 .
  from r1 r2 ch r3 r4 r6 show ?thesis by simp
qed

section \<open>Empty parameter and argument lists\<close>

text \<open>
  C7. A comment whose next character is a closing parenthesis, enclosed by a function-like
  node (\<open>isRealFunctionLikeNode\<close>) with no parameters or by a call-like node with no
  arguments, is attached by \<open>handleCommentInEmptyParens\<close> as a dangling comment of the
  enclosing node; enclosed by a method definition whose function value has no
  parameters, it is attached as a dangling comment of that function value.
\<close>

theorem comment_in_empty_parens:
  assumes nxt: "getNextNonSpaceNonCommentCharacter E (source_text ctx) (comment ctx) (locEnd E) = '')''"
    and e: "is_node (enclosingNode ctx)"
    and c: "is_object (comment ctx)"
  shows
    "((isRealFunctionLikeNode (enclosingNode ctx) = Inr True \<and>
       getFunctionParameters E (enclosingNode ctx) = []) \<or>
      (isCallLikeExpression E (enclosingNode ctx) \<and>
       getCallArguments E (enclosingNode ctx) = []) \<longrightarrow>
        handleCommentInEmptyParens E ctx s =
          Inr (True, commit s (enclosingNode ctx) Dangling (comment ctx) None)) \<and>
     ((opt (enclosingNode ctx) ''type'' = JStr ''MethodDefinition'' \<or>
       opt (enclosingNode ctx) ''type'' = JStr ''TSAbstractMethodDefinition'') \<and>
      \<not> (isCallLikeExpression E (enclosingNode ctx) \<and>
         getCallArguments E (enclosingNode ctx) = []) \<and>
      is_node (opt (enclosingNode ctx) ''value'') \<and>
      getFunctionParameters E (opt (enclosingNode ctx) ''value'') = [] \<longrightarrow>
        handleCommentInEmptyParens E ctx s =
          Inr (True, commit s (opt (enclosingNode ctx) ''value'') Dangling (comment ctx) None))"
proof -
  from e obtain ei eps where "enclosingNode ctx = JObj ei eps" by (rule is_nodeE)
  then show ?thesis
    using assms
    by (auto simp: handleCommentInEmptyParens_def isRealFunctionLikeNode_def is_node_object)
qed

text \<open>
  The theorem at \<^verbatim>\<open>foo(/* none */)\<close>, where the comment dangles on the call, and at
  \<^verbatim>\<open>class A { m(/*c*/) {} }\<close>, where it dangles on the function value of the method.
\<close>

theorem comment_in_empty_parens_witness:
  "handleCommentInEmptyParens plain_env call_ctx empty_store =
     Inr (True, commit empty_store call_node Dangling call_comment None) \<and>
   handleCommentInEmptyParens plain_env method_ctx empty_store =
     Inr (True, commit empty_store method_value Dangling method_comment None)"
proof -
  have a1: "getNextNonSpaceNonCommentCharacter plain_env (source_text call_ctx)
              (comment call_ctx) (locEnd plain_env) = '')''"
    by code_simp
  have a2: "is_node (enclosingNode call_ctx)" by code_simp
  have a3: "is_object (comment call_ctx)" by code_simp
  have a4: "isCallLikeExpression plain_env (enclosingNode call_ctx) \<and>
            getCallArguments plain_env (enclosingNode call_ctx) = []"
    by code_simp
  have a5: "enclosingNode call_ctx = call_node" "comment call_ctx = call_comment"
    by (simp_all add: call_ctx_def mk_ctx_def)
  have m1: "getNextNonSpaceNonCommentCharacter plain_env (source_text method_ctx)
              (comment method_ctx) (locEnd plain_env) = '')''"
    by code_simp
  have m2: "is_node (enclosingNode method_ctx)" by code_simp
  have m3: "is_object (comment method_ctx)" by code_simp
  have m4: "(opt (enclosingNode method_ctx) ''type'' = JStr ''MethodDefinition'' \<or>
       opt (enclosingNode method_ctx) ''type'' = JStr ''TSAbstractMethodDefinition'') \<and>
      \<not> (isCallLikeExpression plain_env (enclosingNode method_ctx) \<and>
         getCallArguments plain_env (enclosingNode method_ctx) = []) \<and>
      is_node (opt (enclosingNode method_ctx) ''value'') \<and>
      getFunctionParameters plain_env (opt (enclosingNode method_ctx) ''value'') = []"
    by code_simp
  have m5: "opt (enclosingNode method_ctx) ''value'' = method_value"
    "comment method_ctx = method_comment"
    by code_simp+
  from comment_in_empty_parens [OF a1 a2 a3, of empty_store] a4 a5
  have r1: "handleCommentInEmptyParens plain_env call_ctx empty_store =
     Inr (True, commit empty_store call_node Dangling call_comment None)"
    by simp
  from comment_in_empty_parens [OF m1 m2 m3, of empty_store] m4 m5
  have r2: "handleCommentInEmptyParens plain_env method_ctx empty_store =
     Inr (True, commit empty_store method_value Dangling method_comment None)"
    by simp
  from r1 r2 show ?thesis by simp
qed

section \<open>Comments before the arrow\<close>

text \<open>
  C8, as the spec states it, fails. For \<^verbatim>\<open>(a, b/*c*/) => x\<close> the next character after
  the comment is the closing parenthesis, not the arrow: \<open>handleCommentAfterArrowParams\<close>
  declines, no handler of the chain for remaining comments claims the comment, and
  nothing is attached.
\<close>

theorem arrow_params_counterexample:
  "handleCommentAfterArrowParams plain_env arrow_ctx empty_store = Inr (False, empty_store) \<and>
   handleRemainingComment plain_env arrow_ctx empty_store = Inr (False, empty_store) \<and>
   handleRemainingComment plain_env arrow_ctx empty_store \<noteq>
     Inr (True, commit empty_store (arrow_node 0) Dangling arrow_comment None)"
proof -
  have a: "handleCommentAfterArrowParams plain_env arrow_ctx empty_store = Inr (False, empty_store)"
    by code_simp
  have b: "handleRemainingComment plain_env arrow_ctx empty_store = Inr (False, empty_store)"
    by code_simp
  from a b show ?thesis by simp
qed

text \<open>
  C8, amended. A comment enclosed by an arrow function whose next two characters that
  are neither white space nor part of a comment are \<^verbatim>\<open>=>\<close> is attached as a dangling
  comment of the arrow function, by \<open>handleCommentAfterArrowParams\<close> and, as no earlier
  handler of the chain claims it, by \<open>handleRemainingComment\<close>. The earlier handlers
  decline when the two lookahead imports agree on the next character, the arrow function
  is no object property for \<open>isObjectProperty\<close>, the program has a statement and the
  following node is not a program.
\<close>

theorem comment_after_arrow_params:
  assumes e: "is_node (enclosingNode ctx)"
      "opt (enclosingNode ctx) ''type'' = JStr ''ArrowFunctionExpression''"
    and c: "is_object (comment ctx)"
    and idx: "getNextNonSpaceNonCommentCharacterIndex E (source_text ctx) (comment ctx) (locEnd E)
               = Some i"
      "take 2 (drop i (source_text ctx)) = ''=>''"
    and ch: "getNextNonSpaceNonCommentCharacter E (source_text ctx) (comment ctx) (locEnd E)
               = take 1 (drop i (source_text ctx))"
    and nprop: "\<not> isObjectProperty E (enclosingNode ctx)"
    and prog: "is_node (ast ctx)" "opt (ast ctx) ''body'' = JArr (st # sts)"
    and f: "opt (followingNode ctx) ''type'' \<noteq> JStr ''Program''"
  shows "handleCommentAfterArrowParams E ctx s =
           Inr (True, commit s (enclosingNode ctx) Dangling (comment ctx) None) \<and>
         handleRemainingComment E ctx s =
           Inr (True, commit s (enclosingNode ctx) Dangling (comment ctx) None)"
proof -
  from e(1) obtain ei eps where e': "enclosingNode ctx = JObj ei eps" by (rule is_nodeE)
  from prog(1) obtain ai aps where a': "ast ctx = JObj ai aps" by (rule is_nodeE)
  from idx(2) have "take 1 (drop i (source_text ctx)) = ''=''"
    by (cases "drop i (source_text ctx)") auto
  with ch have nxt:
    "getNextNonSpaceNonCommentCharacter E (source_text ctx) (comment ctx) (locEnd E) = ''=''"
    by simp
  have h: "handleCommentAfterArrowParams E ctx s =
           Inr (True, commit s (enclosingNode ctx) Dangling (comment ctx) None)"
    using e e' c idx by (simp add: handleCommentAfterArrowParams_def)
  have d1: "handleIgnoreComments E ctx s = Inr (False, s)"
    using e e' by (simp add: handleIgnoreComments_def declined_def)
  have d2: "handleIfStatementComments E ctx s = Inr (False, s)"
    using e e' by (simp add: handleIfStatementComments_def declined_def)
  have d3: "handleWhileComments E ctx s = Inr (False, s)"
    using e e' by (simp add: handleWhileComments_def declined_def)
  have d4: "handleObjectPropertyAssignment E ctx s = Inr (False, s)"
    using nprop by (simp add: handleObjectPropertyAssignment_def declined_def)
  have d5: "handleCommentInEmptyParens E ctx s = Inr (False, s)"
    using nxt by (simp add: handleCommentInEmptyParens_def declined_def)
  have d6: "handleMethodNameComments E ctx s = Inr (False, s)"
    using nxt e e'
    by (simp add: handleMethodNameComments_def declined_def set_has_def propertyLikeNodeTypes_def)
  have d7: "handleOnlyComments E ctx s = Inr (False, s)"
    using prog a' e e' f by (simp add: handleOnlyComments_def declined_def get2_def)
  show ?thesis
    using h d1 d2 d3 d4 d5 d6 d7
    by (simp add: handleRemainingComment_def remainingHandlers_def)
qed

text \<open>The theorem at \<^verbatim>\<open>(a, b) /*c*/ => x\<close>.\<close>

theorem comment_after_arrow_params_witness:
  "handleCommentAfterArrowParams plain_env arrow_after_ctx empty_store =
     Inr (True, commit empty_store (arrow_node 1) Dangling arrow_after_comment None) \<and>
   handleRemainingComment plain_env arrow_after_ctx empty_store =
     Inr (True, commit empty_store (arrow_node 1) Dangling arrow_after_comment None)"
proof -
  have h1: "is_node (enclosingNode arrow_after_ctx)" by code_simp
  have h2: "opt (enclosingNode arrow_after_ctx) ''type'' = JStr ''ArrowFunctionExpression''"
    by code_simp
  have h3: "is_object (comment arrow_after_ctx)" by code_simp
  have h4: "getNextNonSpaceNonCommentCharacterIndex plain_env (source_text arrow_after_ctx)
              (comment arrow_after_ctx) (locEnd plain_env) = Some 13"
    by code_simp
  have h5: "take 2 (drop 13 (source_text arrow_after_ctx)) = ''=>''" by code_simp
  have h6: "getNextNonSpaceNonCommentCharacter plain_env (source_text arrow_after_ctx)
              (comment arrow_after_ctx) (locEnd plain_env) =
            take 1 (drop 13 (source_text arrow_after_ctx))"
    by code_simp
  have h7: "\<not> isObjectProperty plain_env (enclosingNode arrow_after_ctx)" by code_simp
  have h8: "is_node (ast arrow_after_ctx)" by code_simp
  have h9: "opt (ast arrow_after_ctx) ''body'' = JArr (arrow_stmt 1 # [])" by code_simp
  have h10: "opt (followingNode arrow_after_ctx) ''type'' \<noteq> JStr ''Program''" by code_simp
  have v: "enclosingNode arrow_after_ctx = arrow_node 1"
    "comment arrow_after_ctx = arrow_after_comment"
    by (simp_all add: arrow_after_ctx_def mk_ctx_def)
  from comment_after_arrow_params [OF h1 h2 h3 h4 h5 h6 h7 h8 h9 h10, of empty_store] v
  show ?thesis by simp
qed

section \<open>Type-cast comments at the end of a line\<close>

lemma at_type_here_iff:
  "at_type_here v = (\<exists>post. v = ''@type'' @ post \<and> (post = [] \<or> \<not> is_word_char (hd post)))"
proof
  assume a: "at_type_here v"
  then have t: "take 5 v = ''@type''" by (simp add: at_type_here_def)
  have "v = take 5 v @ drop 5 v" by simp
  with t have v: "v = ''@type'' @ drop 5 v" by metis
  from a have "drop 5 v = [] \<or> \<not> is_word_char (hd (drop 5 v))"
    by (auto simp: at_type_here_def split: list.splits)
  with v show "\<exists>post. v = ''@type'' @ post \<and> (post = [] \<or> \<not> is_word_char (hd post))"
    by blast
next
  assume "\<exists>post. v = ''@type'' @ post \<and> (post = [] \<or> \<not> is_word_char (hd post))"
  then obtain post where "v = ''@type'' @ post" "post = [] \<or> \<not> is_word_char (hd post)"
    by blast
  then show "at_type_here v"
    by (auto simp: at_type_here_def split: list.splits)
qed

lemma regex_at_type_b_iff: "regex_at_type_b v = has_at_type_word v"
proof (induction v)
  case Nil
  show ?case by (simp add: has_at_type_word_def)
next
  case (Cons ch rest)
  show ?case
  proof
    assume "regex_at_type_b (ch # rest)"
    then consider "at_type_here (ch # rest)" | "regex_at_type_b rest" by auto
    then show "has_at_type_word (ch # rest)"
    proof cases
      case 1
      then obtain post where "ch # rest = ''@type'' @ post"
        "post = [] \<or> \<not> is_word_char (hd post)"
        unfolding at_type_here_iff by blast
      then have "ch # rest = [] @ ''@type'' @ post \<and> (post = [] \<or> \<not> is_word_char (hd post))"
        by simp
      then show ?thesis unfolding has_at_type_word_def by blast
    next
      case 2
      with Cons.IH obtain pre post where "rest = pre @ ''@type'' @ post"
        "post = [] \<or> \<not> is_word_char (hd post)"
        unfolding has_at_type_word_def by blast
      then have "ch # rest = (ch # pre) @ ''@type'' @ post \<and>
          (post = [] \<or> \<not> is_word_char (hd post))"
        by simp
      then show ?thesis unfolding has_at_type_word_def by blast
    qed
  next
    assume "has_at_type_word (ch # rest)"
    then obtain pre post where p: "ch # rest = pre @ ''@type'' @ post"
      "post = [] \<or> \<not> is_word_char (hd post)"
      unfolding has_at_type_word_def by blast
    show "regex_at_type_b (ch # rest)"
    proof (cases pre)
      case Nil
      with p have "at_type_here (ch # rest)" unfolding at_type_here_iff by auto
      then show ?thesis by simp
    next
      case (Cons a pre')
      with p have "rest = pre' @ ''@type'' @ post" by simp
      with p(2) have "has_at_type_word rest" unfolding has_at_type_word_def by blast
      with Cons.IH show ?thesis by simp
    qed
  qed
qed

lemma get_string_is_node: "get c k = Inr (JStr v) \<Longrightarrow> k \<noteq> ''length'' \<Longrightarrow> is_node c"
  by (cases c) (auto split: if_splits)

text \<open>
  C10. For a comment whose \<^verbatim>\<open>value\<close> is a string, \<open>isTypeCastComment\<close> returns true
  exactly when the comment is a block comment, its text starts with \<^verbatim>\<open>*\<close> and the
  text contains \<^verbatim>\<open>@type\<close> at a word boundary. For such a comment with a following
  node, \<open>handleEndOfLineComment\<close> attaches the comment as a leading comment of the
  following node, and this is the decision of \<open>handleClosureTypeCastComments\<close>, the
  first handler of the chain.
\<close>

theorem type_cast_comment:
  assumes v: "get (comment ctx) ''value'' = Inr (JStr v)"
  shows "isTypeCastComment E (comment ctx) =
           Inr (isBlockComment E (comment ctx) \<and> starts_with_star v \<and> has_at_type_word v) \<and>
         (isTypeCastComment E (comment ctx) = Inr True \<and> is_node (followingNode ctx) \<longrightarrow>
            handleEndOfLineComment E ctx s =
              Inr (True, commit s (followingNode ctx) Leading (comment ctx) None) \<and>
            handleEndOfLineComment E ctx s = handleClosureTypeCastComments E ctx s) \<and>
         (\<exists>rest. endOfLineHandlers = handleClosureTypeCastComments # rest)"
proof -
  from v have c: "is_node (comment ctx)" by (rule get_string_is_node) simp
  have i1: "starts_with_star v \<Longrightarrow> index0 (JStr v) = Inr (JStr ''*'')"
    by (cases v) (auto simp: starts_with_star_def)
  have i2: "\<not> starts_with_star v \<Longrightarrow> \<exists>x. index0 (JStr v) = Inr x \<and> x \<noteq> JStr ''*''"
    by (cases v) (auto simp: starts_with_star_def)
  have t: "isTypeCastComment E (comment ctx) =
           Inr (isBlockComment E (comment ctx) \<and> starts_with_star v \<and> has_at_type_word v)"
  proof (cases "starts_with_star v")
    case True
    with i1 v show ?thesis by (simp add: isTypeCastComment_def regex_at_type_b_iff)
  next
    case False
    with i2 obtain x where "index0 (JStr v) = Inr x" "x \<noteq> JStr ''*''" by blast
    with False v show ?thesis by (simp add: isTypeCastComment_def)
  qed
  have h: "isTypeCastComment E (comment ctx) = Inr True \<and> is_node (followingNode ctx) \<longrightarrow>
            handleEndOfLineComment E ctx s =
              Inr (True, commit s (followingNode ctx) Leading (comment ctx) None) \<and>
            handleEndOfLineComment E ctx s = handleClosureTypeCastComments E ctx s"
    using c
    by (auto simp: handleEndOfLineComment_def endOfLineHandlers_def
        handleClosureTypeCastComments_def is_node_object)
  have l: "\<exists>rest. endOfLineHandlers = handleClosureTypeCastComments # rest"
    by (simp add: endOfLineHandlers_def)
  from t h l show ?thesis by blast
qed

text \<open>
  The theorem at \<^verbatim>\<open>const x = /** @type {T} */\<close>, \<^verbatim>\<open>(y);\<close>: the comment is a type
  cast and becomes a leading comment of \<^verbatim>\<open>y\<close>.
\<close>

theorem type_cast_comment_witness:
  "isTypeCastComment plain_env cast_comment = Inr True \<and>
   isBlockComment plain_env cast_comment \<and> starts_with_star ''* @type {T} '' \<and>
   has_at_type_word ''* @type {T} '' \<and>
   handleEndOfLineComment plain_env cast_ctx empty_store =
     Inr (True, commit empty_store cast_y Leading cast_comment None)"
proof -
  have h1: "get (comment cast_ctx) ''value'' = Inr (JStr ''* @type {T} '')" by code_simp
  have h2: "isTypeCastComment plain_env (comment cast_ctx) = Inr True" by code_simp
  have h3: "is_node (followingNode cast_ctx)" by code_simp
  have v: "comment cast_ctx = cast_comment" "followingNode cast_ctx = cast_y"
    by (simp_all add: cast_ctx_def mk_ctx_def)
  from type_cast_comment [OF h1, of plain_env empty_store] h2 h3 v
  show ?thesis by simp
qed

section \<open>One decision for each claimed comment\<close>

lemma ifE_cases: "ifE c a b = Inr r \<Longrightarrow> a = Inr r \<or> b = Inr r"
  by (auto simp: ifE_def split: sum.splits if_splits)

lemma bindE_cases: "bindE m f = Inr r \<Longrightarrow> \<exists>v. f v = Inr r"
  by (auto simp: bindE_def split: sum.splits)

lemma addCommentHelper_effect:
  "addCommentHelper r node c m s = Inr s' \<Longrightarrow> one_attachment c s s'"
  by (auto simp: addCommentHelper_def one_attachment_def commit_def split: if_splits)

lemma add_effect:
  "addLeadingComment node c s = Inr s' \<Longrightarrow> one_attachment c s s'"
  "addTrailingComment node c s = Inr s' \<Longrightarrow> one_attachment c s s'"
  "addDanglingComment node c m s = Inr s' \<Longrightarrow> one_attachment c s s'"
  by (auto simp: addLeadingComment_def addTrailingComment_def addDanglingComment_def
      dest: addCommentHelper_effect)

lemma addBlockStatementFirstComment_effect:
  "addBlockStatementFirstComment node c s = Inr s' \<Longrightarrow> one_attachment c s s'"
  unfolding addBlockStatementFirstComment_def
  by (auto dest!: bindE_cases dest: add_effect split: if_splits)

lemma addBlockOrNotComment_effect:
  "addBlockOrNotComment node c s = Inr s' \<Longrightarrow> one_attachment c s s'"
  unfolding addBlockOrNotComment_def
  by (auto dest!: bindE_cases dest: add_effect addBlockStatementFirstComment_effect split: if_splits)

lemmas attach_effect = add_effect addBlockStatementFirstComment_effect addBlockOrNotComment_effect

lemma claimedD: "claimed r = Inr (b, s') \<Longrightarrow> b \<and> r = Inr s'"
  by (cases r) auto

lemma declinedD: "declined s = Inr (b, s') \<Longrightarrow> \<not> b \<and> s' = s"
  by (simp add: declined_def)

lemma set_flag_attachments:
  "set_prettierIgnore node s = Inr s' \<Longrightarrow> attachments s' = attachments s"
  "set_unignore c s = Inr s' \<Longrightarrow> attachments s' = attachments s"
  by (auto simp: set_prettierIgnore_def set_unignore_def split: if_splits)

lemma one_attachment_after_flags:
  "attachments s1 = attachments s \<Longrightarrow> one_attachment c s1 s' \<Longrightarrow> one_attachment c s s'"
  by (simp add: one_attachment_def)

lemma handleClassComments_loop_effect:
  "handleClassComments_loop ps ctx s = Inr (b, s') \<Longrightarrow> chain_effect b (comment ctx) s s'"
  by (induction ps)
    (auto simp: chain_effect_def dest!: ifE_cases bindE_cases claimedD declinedD
      dest: attach_effect split: if_splits)

lemma same_but_optionsE:
  "same_but_options c1 c2 \<Longrightarrow>
    (comment c1 = comment c2 \<Longrightarrow> precedingNode c1 = precedingNode c2 \<Longrightarrow>
     enclosingNode c1 = enclosingNode c2 \<Longrightarrow> followingNode c1 = followingNode c2 \<Longrightarrow>
     source_text c1 = source_text c2 \<Longrightarrow> ast c1 = ast c2 \<Longrightarrow>
     isLastComment c1 = isLastComment c2 \<Longrightarrow> P) \<Longrightarrow> P"
  by (simp add: same_but_options_def)

lemma handleClassComments_loop_same:
  "same_but_options c1 c2 \<Longrightarrow>
     handleClassComments_loop ps c1 s = handleClassComments_loop ps c2 s"
  by (erule same_but_optionsE, induction ps) (simp_all only: handleClassComments_loop.simps)

lemma ignores_optionsI:
  assumes "\<And>E c1 c2 s. same_but_options c1 c2 \<Longrightarrow> h E c1 s = h E c2 s"
  shows "ignores_options h"
  unfolding ignores_options_def
proof (intro allI)
  fix E ctx cfg s
  have "same_but_options (ctx\<lparr>options := cfg\<rparr>) ctx"
    by (simp add: same_but_options_def)
  then show "h E (ctx\<lparr>options := cfg\<rparr>) s = h E ctx s"
    by (rule assms)
qed

lemma handleLastFunctionArgComments_effect: "attaches_once handleLastFunctionArgComments"
  unfolding attaches_once_def handleLastFunctionArgComments_def
  by (auto simp: chain_effect_def dest!: ifE_cases bindE_cases claimedD declinedD
      dest: attach_effect split: if_splits option.splits)

lemma handleMemberExpressionComments_effect: "attaches_once handleMemberExpressionComments"
  unfolding attaches_once_def handleMemberExpressionComments_def
  by (auto simp: chain_effect_def dest!: ifE_cases bindE_cases claimedD declinedD
      dest: attach_effect split: if_splits option.splits)

lemma handleIfStatementComments_effect: "attaches_once handleIfStatementComments"
  unfolding attaches_once_def handleIfStatementComments_def
  by (auto simp: chain_effect_def dest!: ifE_cases bindE_cases claimedD declinedD
      dest: attach_effect split: if_splits option.splits)

lemma handleWhileComments_effect: "attaches_once handleWhileComments"
  unfolding attaches_once_def handleWhileComments_def
  by (auto simp: chain_effect_def dest!: ifE_cases bindE_cases claimedD declinedD
      dest: attach_effect split: if_splits option.splits)

lemma handleTryStatementComments_effect: "attaches_once handleTryStatementComments"
  unfolding attaches_once_def handleTryStatementComments_def
  by (auto simp: chain_effect_def dest!: ifE_cases bindE_cases claimedD declinedD
      dest: attach_effect split: if_splits option.splits)

lemma handleClassComments_effect: "attaches_once handleClassComments"
  unfolding attaches_once_def handleClassComments_def
  by (auto simp: chain_effect_def dest!: ifE_cases bindE_cases claimedD declinedD
      dest: attach_effect handleClassComments_loop_effect split: if_splits option.splits)

lemma handleForComments_effect: "attaches_once handleForComments"
  unfolding attaches_once_def handleForComments_def
  by (auto simp: chain_effect_def dest!: ifE_cases bindE_cases claimedD declinedD
      dest: attach_effect split: if_splits option.splits)

lemma bindE_InrD: "bindE m f = Inr r \<Longrightarrow> \<exists>v. m = Inr v \<and> f v = Inr r"
  by (auto simp: bindE_def split: sum.splits)

lemma union_flags_attachments:
  "(if b then bindE (set_prettierIgnore node s) (set_unignore c) else Inr s) = Inr s1 \<Longrightarrow>
     attachments s1 = attachments s"
  by (auto dest!: bindE_InrD simp: set_prettierIgnore_def set_unignore_def split: if_splits)

lemma handleUnionTypeComments_effect: "attaches_once handleUnionTypeComments"
proof -
  have "chain_effect b (comment ctx) s s'"
    if h: "handleUnionTypeComments E ctx s = Inr (b, s')" for E ctx s b s'
  proof (cases "eq_str (opt (enclosingNode ctx) ''type'') ''UnionTypeAnnotation'' \<or>
         eq_str (opt (enclosingNode ctx) ''type'') ''TSUnionType''")
    case True
    with h obtain s1 where
      f: "(if isPrettierIgnoreComment E s (comment ctx)
           then bindE (set_prettierIgnore (followingNode ctx) s) (set_unignore (comment ctx))
           else Inr s) = Inr s1"
      and r: "(if truthy (precedingNode ctx)
               then claimed (addTrailingComment (precedingNode ctx) (comment ctx) s1)
               else declined s1) = Inr (b, s')"
      unfolding handleUnionTypeComments_def by (auto dest!: bindE_InrD)
    from f have a: "attachments s1 = attachments s" by (rule union_flags_attachments)
    from r have "chain_effect b (comment ctx) s1 s'"
      by (auto simp: chain_effect_def dest!: claimedD declinedD dest: attach_effect
          split: if_splits)
    with a show ?thesis by (auto simp: chain_effect_def one_attachment_def)
  next
    case False
    with h obtain s1 where
      f: "(if (eq_str (opt (followingNode ctx) ''type'') ''UnionTypeAnnotation'' \<or>
               eq_str (opt (followingNode ctx) ''type'') ''TSUnionType'') \<and>
              isPrettierIgnoreComment E s (comment ctx)
           then bindE (bindE (get (followingNode ctx) ''types'') index0) (\<lambda>type0.
                  bindE (set_prettierIgnore type0 s) (set_unignore (comment ctx)))
           else Inr s) = Inr s1"
      and r: "declined s1 = Inr (b, s')"
      unfolding handleUnionTypeComments_def by (auto dest!: bindE_InrD)
    from f have a: "attachments s1 = attachments s"
      by (auto dest!: bindE_InrD simp: set_prettierIgnore_def set_unignore_def
          split: if_splits)
    from r a show ?thesis by (auto simp: chain_effect_def dest!: declinedD)
  qed
  then show ?thesis unfolding attaches_once_def by blast
qed

lemma handleOnlyComments_effect: "attaches_once handleOnlyComments"
  unfolding attaches_once_def handleOnlyComments_def
  by (auto simp: chain_effect_def dest!: ifE_cases bindE_cases claimedD declinedD
      dest: attach_effect split: if_splits option.splits)

lemma handleModuleSpecifiersComments_effect: "attaches_once handleModuleSpecifiersComments"
  unfolding attaches_once_def handleModuleSpecifiersComments_def
  by (auto simp: chain_effect_def dest!: ifE_cases bindE_cases claimedD declinedD
      dest: attach_effect split: if_splits option.splits)

lemma handleAssignmentPatternComments_effect: "attaches_once handleAssignmentPatternComments"
  unfolding attaches_once_def handleAssignmentPatternComments_def
  by (auto simp: chain_effect_def dest!: ifE_cases bindE_cases claimedD declinedD
      dest: attach_effect split: if_splits option.splits)

lemma handleMethodNameComments_effect: "attaches_once handleMethodNameComments"
  unfolding attaches_once_def handleMethodNameComments_def
  by (auto simp: chain_effect_def dest!: ifE_cases bindE_cases claimedD declinedD
      dest: attach_effect split: if_splits option.splits)

lemma handleLabeledStatementComments_effect: "attaches_once handleLabeledStatementComments"
  unfolding attaches_once_def handleLabeledStatementComments_def
  by (auto simp: chain_effect_def dest!: ifE_cases bindE_cases claimedD declinedD
      dest: attach_effect split: if_splits option.splits)

lemma handleBreakAndContinueStatementComments_effect: "attaches_once handleBreakAndContinueStatementComments"
  unfolding attaches_once_def handleBreakAndContinueStatementComments_def
  by (auto simp: chain_effect_def dest!: ifE_cases bindE_cases claimedD declinedD
      dest: attach_effect split: if_splits option.splits)

lemma handleClosureTypeCastComments_effect: "attaches_once handleClosureTypeCastComments"
  unfolding attaches_once_def handleClosureTypeCastComments_def
  by (auto simp: chain_effect_def dest!: ifE_cases bindE_cases claimedD declinedD
      dest: attach_effect split: if_splits option.splits)

lemma handleConditionalExpressionComments_effect: "attaches_once handleConditionalExpressionComments"
  unfolding attaches_once_def handleConditionalExpressionComments_def
  by (auto simp: chain_effect_def dest!: ifE_cases bindE_cases claimedD declinedD
      dest: attach_effect split: if_splits option.splits)

lemma handleCallExpressionComments_effect: "attaches_once handleCallExpressionComments"
  unfolding attaches_once_def handleCallExpressionComments_def
  by (auto simp: chain_effect_def dest!: ifE_cases bindE_cases claimedD declinedD
      dest: attach_effect split: if_splits option.splits)

lemma handlePropertyComments_effect: "attaches_once handlePropertyComments"
  unfolding attaches_once_def handlePropertyComments_def
  by (auto simp: chain_effect_def dest!: ifE_cases bindE_cases claimedD declinedD
      dest: attach_effect split: if_splits option.splits)

lemma handleVariableDeclaratorComments_effect: "attaches_once handleVariableDeclaratorComments"
  unfolding attaches_once_def handleVariableDeclaratorComments_def
  by (auto simp: chain_effect_def dest!: ifE_cases bindE_cases claimedD declinedD
      dest: attach_effect split: if_splits option.splits)

lemma handleSwitchDefaultCaseComments_effect: "attaches_once handleSwitchDefaultCaseComments"
  unfolding attaches_once_def handleSwitchDefaultCaseComments_def
  by (auto simp: chain_effect_def dest!: ifE_cases bindE_cases claimedD declinedD
      dest: attach_effect split: if_splits option.splits)

lemma handleObjectPropertyAssignment_effect: "attaches_once handleObjectPropertyAssignment"
  unfolding attaches_once_def handleObjectPropertyAssignment_def
  by (auto simp: chain_effect_def dest!: ifE_cases bindE_cases claimedD declinedD
      dest: attach_effect split: if_splits option.splits)

lemma handleCommentInEmptyParens_effect: "attaches_once handleCommentInEmptyParens"
  unfolding attaches_once_def handleCommentInEmptyParens_def
  by (auto simp: chain_effect_def dest!: ifE_cases bindE_cases claimedD declinedD
      dest: attach_effect split: if_splits option.splits)

lemma handleCommentAfterArrowParams_effect: "attaches_once handleCommentAfterArrowParams"
  unfolding attaches_once_def handleCommentAfterArrowParams_def
  by (auto simp: chain_effect_def dest!: ifE_cases bindE_cases claimedD declinedD
      dest: attach_effect split: if_splits option.splits)

lemma handleFunctionNameComments_effect: "attaches_once handleFunctionNameComments"
  unfolding attaches_once_def handleFunctionNameComments_def
  by (auto simp: chain_effect_def dest!: ifE_cases bindE_cases claimedD declinedD
      dest: attach_effect split: if_splits option.splits)

lemma handleTSMappedTypeComments_effect: "attaches_once handleTSMappedTypeComments"
  unfolding attaches_once_def handleTSMappedTypeComments_def
  by (auto simp: chain_effect_def dest!: ifE_cases bindE_cases claimedD declinedD
      dest: attach_effect split: if_splits option.splits)

lemma handleTSFunctionTrailingComments_effect: "attaches_once handleTSFunctionTrailingComments"
  unfolding attaches_once_def handleTSFunctionTrailingComments_def
  by (auto simp: chain_effect_def dest!: ifE_cases bindE_cases claimedD declinedD
      dest: attach_effect split: if_splits option.splits)

lemma handleLastFunctionArgComments_options: "ignores_options handleLastFunctionArgComments"
  by (rule ignores_optionsI, erule same_but_optionsE)
    (simp only: handleLastFunctionArgComments_def functionParamRightParenIndex_def)

lemma handleMemberExpressionComments_options: "ignores_options handleMemberExpressionComments"
  by (rule ignores_optionsI, erule same_but_optionsE)
    (simp only: handleMemberExpressionComments_def functionParamRightParenIndex_def)

lemma handleIfStatementComments_options: "ignores_options handleIfStatementComments"
  by (rule ignores_optionsI, erule same_but_optionsE)
    (simp only: handleIfStatementComments_def functionParamRightParenIndex_def)

lemma handleWhileComments_options: "ignores_options handleWhileComments"
  by (rule ignores_optionsI, erule same_but_optionsE)
    (simp only: handleWhileComments_def functionParamRightParenIndex_def)

lemma handleTryStatementComments_options: "ignores_options handleTryStatementComments"
  by (rule ignores_optionsI, erule same_but_optionsE)
    (simp only: handleTryStatementComments_def functionParamRightParenIndex_def)

lemma handleClassComments_options: "ignores_options handleClassComments"
proof (rule ignores_optionsI)
  fix E c1 c2 s
  assume a: "same_but_options c1 c2"
  note l = handleClassComments_loop_same [OF a, of "[''implements'', ''extends'', ''mixins'']" s]
  from a show "handleClassComments E c1 s = handleClassComments E c2 s"
    by (rule same_but_optionsE) (simp only: handleClassComments_def l)
qed

lemma handleForComments_options: "ignores_options handleForComments"
  by (rule ignores_optionsI, erule same_but_optionsE)
    (simp only: handleForComments_def functionParamRightParenIndex_def)

lemma handleUnionTypeComments_options: "ignores_options handleUnionTypeComments"
  by (rule ignores_optionsI, erule same_but_optionsE)
    (simp only: handleUnionTypeComments_def functionParamRightParenIndex_def)

lemma handleOnlyComments_options: "ignores_options handleOnlyComments"
  by (rule ignores_optionsI, erule same_but_optionsE)
    (simp only: handleOnlyComments_def functionParamRightParenIndex_def)

lemma handleModuleSpecifiersComments_options: "ignores_options handleModuleSpecifiersComments"
  by (rule ignores_optionsI, erule same_but_optionsE)
    (simp only: handleModuleSpecifiersComments_def functionParamRightParenIndex_def)

lemma handleAssignmentPatternComments_options: "ignores_options handleAssignmentPatternComments"
  by (rule ignores_optionsI, erule same_but_optionsE)
    (simp only: handleAssignmentPatternComments_def functionParamRightParenIndex_def)

lemma handleMethodNameComments_options: "ignores_options handleMethodNameComments"
  by (rule ignores_optionsI, erule same_but_optionsE)
    (simp only: handleMethodNameComments_def functionParamRightParenIndex_def)

lemma handleLabeledStatementComments_options: "ignores_options handleLabeledStatementComments"
  by (rule ignores_optionsI, erule same_but_optionsE)
    (simp only: handleLabeledStatementComments_def functionParamRightParenIndex_def)

lemma handleBreakAndContinueStatementComments_options: "ignores_options handleBreakAndContinueStatementComments"
  by (rule ignores_optionsI, erule same_but_optionsE)
    (simp only: handleBreakAndContinueStatementComments_def functionParamRightParenIndex_def)

lemma handleClosureTypeCastComments_options: "ignores_options handleClosureTypeCastComments"
  by (rule ignores_optionsI, erule same_but_optionsE)
    (simp only: handleClosureTypeCastComments_def functionParamRightParenIndex_def)

lemma handleConditionalExpressionComments_options: "ignores_options handleConditionalExpressionComments"
  by (rule ignores_optionsI, erule same_but_optionsE)
    (simp only: handleConditionalExpressionComments_def functionParamRightParenIndex_def)

lemma handleCallExpressionComments_options: "ignores_options handleCallExpressionComments"
  by (rule ignores_optionsI, erule same_but_optionsE)
    (simp only: handleCallExpressionComments_def functionParamRightParenIndex_def)

lemma handlePropertyComments_options: "ignores_options handlePropertyComments"
  by (rule ignores_optionsI, erule same_but_optionsE)
    (simp only: handlePropertyComments_def functionParamRightParenIndex_def)

lemma handleVariableDeclaratorComments_options: "ignores_options handleVariableDeclaratorComments"
  by (rule ignores_optionsI, erule same_but_optionsE)
    (simp only: handleVariableDeclaratorComments_def functionParamRightParenIndex_def)

lemma handleSwitchDefaultCaseComments_options: "ignores_options handleSwitchDefaultCaseComments"
  by (rule ignores_optionsI, erule same_but_optionsE)
    (simp only: handleSwitchDefaultCaseComments_def functionParamRightParenIndex_def)

lemma handleObjectPropertyAssignment_options: "ignores_options handleObjectPropertyAssignment"
  by (rule ignores_optionsI, erule same_but_optionsE)
    (simp only: handleObjectPropertyAssignment_def functionParamRightParenIndex_def)

lemma handleCommentInEmptyParens_options: "ignores_options handleCommentInEmptyParens"
  by (rule ignores_optionsI, erule same_but_optionsE)
    (simp only: handleCommentInEmptyParens_def functionParamRightParenIndex_def)

lemma handleCommentAfterArrowParams_options: "ignores_options handleCommentAfterArrowParams"
  by (rule ignores_optionsI, erule same_but_optionsE)
    (simp only: handleCommentAfterArrowParams_def functionParamRightParenIndex_def)

lemma handleFunctionNameComments_options: "ignores_options handleFunctionNameComments"
  by (rule ignores_optionsI, erule same_but_optionsE)
    (simp only: handleFunctionNameComments_def functionParamRightParenIndex_def)

lemma handleTSMappedTypeComments_options: "ignores_options handleTSMappedTypeComments"
  by (rule ignores_optionsI, erule same_but_optionsE)
    (simp only: handleTSMappedTypeComments_def functionParamRightParenIndex_def)

lemma handleTSFunctionTrailingComments_options: "ignores_options handleTSFunctionTrailingComments"
  by (rule ignores_optionsI, erule same_but_optionsE)
    (simp only: handleTSFunctionTrailingComments_def functionParamRightParenIndex_def)

lemma handleIgnoreComments_options: "ignores_options handleIgnoreComments"
  by (rule ignores_optionsI, erule same_but_optionsE)
    (simp only: handleIgnoreComments_def functionParamRightParenIndex_def)


lemma handleIgnoreComments_effect:
  assumes "handleIgnoreComments E ctx s = Inr (b, s')"
  shows "attachments s' = attachments s \<and> (\<not> b \<longrightarrow> s' = s) \<and>
         (b \<longrightarrow> prettierIgnore s' = enclosingNode ctx # prettierIgnore s \<and>
                unignore s' = comment ctx # unignore s)"
  using assms unfolding handleIgnoreComments_def
  by (auto simp: set_prettierIgnore_def set_unignore_def
      dest!: ifE_cases bindE_InrD claimedD declinedD split: if_splits)

lemma some_handler_effect:
  "list_all attaches_once hs \<Longrightarrow> some_handler hs E ctx s = Inr (b, s') \<Longrightarrow>
     chain_effect b (comment ctx) s s'"
proof (induction hs arbitrary: s)
  case Nil
  then show ?case by (simp add: chain_effect_def)
next
  case (Cons h hs)
  from Cons.prems(1) have h: "attaches_once h" and hs: "list_all attaches_once hs" by simp_all
  from Cons.prems(2) obtain b1 s1 where r: "h E ctx s = Inr (b1, s1)"
    by (cases "h E ctx s") auto
  with h have e1: "chain_effect b1 (comment ctx) s s1" by (auto simp: attaches_once_def)
  show ?case
  proof (cases b1)
    case True
    with r Cons.prems(2) have "b = True" "s' = s1" by simp_all
    with e1 True show ?thesis by simp
  next
    case False
    with r Cons.prems(2) have "some_handler hs E ctx s1 = Inr (b, s')" by simp
    with hs have "chain_effect b (comment ctx) s1 s'" by (rule Cons.IH)
    moreover from e1 False have "attachments s1 = attachments s" by (simp add: chain_effect_def)
    ultimately show ?thesis by (auto simp: chain_effect_def one_attachment_def)
  qed
qed

lemma some_handler_after_ignore:
  assumes rest: "list_all attaches_once hs"
    and r: "some_handler (handleIgnoreComments # hs) E ctx s = Inr (b, s')"
  shows "if handleIgnoreComments E ctx s = Inr (True, s')
         then b \<and> attachments s' = attachments s \<and>
              prettierIgnore s' = enclosingNode ctx # prettierIgnore s \<and>
              unignore s' = comment ctx # unignore s
         else chain_effect b (comment ctx) s s'"
proof -
  from r obtain b1 s1 where i: "handleIgnoreComments E ctx s = Inr (b1, s1)"
    by (cases "handleIgnoreComments E ctx s") auto
  note e = handleIgnoreComments_effect [OF i]
  show ?thesis
  proof (cases b1)
    case True
    with i r have "b = True" "s' = s1" by simp_all
    with i e True show ?thesis by simp
  next
    case False
    with e have "s1 = s" by simp
    with i r False have "some_handler hs E ctx s = Inr (b, s')" by simp
    with rest have "chain_effect b (comment ctx) s s'" by (rule some_handler_effect)
    with i False show ?thesis by simp
  qed
qed

text \<open>
  C1, as the spec states it, fails. For the \<^verbatim>\<open>prettier-ignore\<close> comment of
  \<^verbatim>\<open>type A = { /* prettier-ignore */ [K in T]: V }\<close> the chain for remaining comments
  returns true, by \<open>handleIgnoreComments\<close>, and attaches the comment to no node: the
  mapped type and the comment are flagged, and the attachments stay empty.
\<close>

theorem chain_attachments_counterexample:
  "handleRemainingComment plain_env mapped_ctx empty_store = Inr (True, mapped_store) \<and>
   attachments mapped_store = [] \<and>
   \<not> chain_effect True (comment mapped_ctx) empty_store mapped_store"
proof -
  have a: "handleRemainingComment plain_env mapped_ctx empty_store = Inr (True, mapped_store)"
    by code_simp
  have c: "attachments mapped_store = []" "attachments empty_store = []"
    by (simp_all add: mapped_store_def empty_store_def)
  then have d: "\<not> chain_effect True (comment mapped_ctx) empty_store mapped_store"
    by (simp add: chain_effect_def one_attachment_def)
  from a c d show ?thesis by simp
qed

text \<open>
  C1, amended. Whenever a chain returns, it has committed one attachment of the comment,
  to one node under one role, if it returns true, and none if it returns false; except
  that the chains for own-line and for remaining comments, when their first handler
  \<open>handleIgnoreComments\<close> claims the comment, return true with no attachment: the
  enclosing node is flagged \<^verbatim>\<open>prettierIgnore\<close> and the comment \<^verbatim>\<open>unignore\<close>.
\<close>

theorem chain_attachments:
  "(handleEndOfLineComment E ctx s = Inr (b, s') \<longrightarrow> chain_effect b (comment ctx) s s') \<and>
   (handleOwnLineComment E ctx s = Inr (b, s') \<longrightarrow>
      (if handleIgnoreComments E ctx s = Inr (True, s')
       then b \<and> attachments s' = attachments s \<and>
            prettierIgnore s' = enclosingNode ctx # prettierIgnore s \<and>
            unignore s' = comment ctx # unignore s
       else chain_effect b (comment ctx) s s')) \<and>
   (handleRemainingComment E ctx s = Inr (b, s') \<longrightarrow>
      (if handleIgnoreComments E ctx s = Inr (True, s')
       then b \<and> attachments s' = attachments s \<and>
            prettierIgnore s' = enclosingNode ctx # prettierIgnore s \<and>
            unignore s' = comment ctx # unignore s
       else chain_effect b (comment ctx) s s'))"
proof (intro conjI impI)
  have "list_all attaches_once endOfLineHandlers"
    by (simp add: endOfLineHandlers_def handleClosureTypeCastComments_effect
        handleLastFunctionArgComments_effect handleConditionalExpressionComments_effect
        handleModuleSpecifiersComments_effect handleIfStatementComments_effect
        handleWhileComments_effect handleTryStatementComments_effect
        handleClassComments_effect handleLabeledStatementComments_effect
        handleCallExpressionComments_effect handlePropertyComments_effect
        handleOnlyComments_effect handleVariableDeclaratorComments_effect
        handleBreakAndContinueStatementComments_effect handleSwitchDefaultCaseComments_effect)
  moreover assume "handleEndOfLineComment E ctx s = Inr (b, s')"
  ultimately show "chain_effect b (comment ctx) s s'"
    unfolding handleEndOfLineComment_def by (rule some_handler_effect)
next
  have "list_all attaches_once (tl ownLineHandlers)"
    by (simp add: ownLineHandlers_def
        handleLastFunctionArgComments_effect handleMemberExpressionComments_effect
        handleIfStatementComments_effect handleWhileComments_effect
        handleTryStatementComments_effect handleClassComments_effect
        handleForComments_effect handleUnionTypeComments_effect handleOnlyComments_effect
        handleModuleSpecifiersComments_effect handleAssignmentPatternComments_effect
        handleMethodNameComments_effect handleLabeledStatementComments_effect
        handleBreakAndContinueStatementComments_effect)
  moreover assume "handleOwnLineComment E ctx s = Inr (b, s')"
  then have "some_handler (handleIgnoreComments # tl ownLineHandlers) E ctx s = Inr (b, s')"
    by (simp add: handleOwnLineComment_def ownLineHandlers_def)
  ultimately show "if handleIgnoreComments E ctx s = Inr (True, s')
       then b \<and> attachments s' = attachments s \<and>
            prettierIgnore s' = enclosingNode ctx # prettierIgnore s \<and>
            unignore s' = comment ctx # unignore s
       else chain_effect b (comment ctx) s s'"
    by (rule some_handler_after_ignore)
next
  have "list_all attaches_once (tl remainingHandlers)"
    by (simp add: remainingHandlers_def
        handleIfStatementComments_effect handleWhileComments_effect
        handleObjectPropertyAssignment_effect handleCommentInEmptyParens_effect
        handleMethodNameComments_effect handleOnlyComments_effect
        handleCommentAfterArrowParams_effect handleFunctionNameComments_effect
        handleTSMappedTypeComments_effect handleBreakAndContinueStatementComments_effect
        handleTSFunctionTrailingComments_effect)
  moreover assume "handleRemainingComment E ctx s = Inr (b, s')"
  then have "some_handler (handleIgnoreComments # tl remainingHandlers) E ctx s = Inr (b, s')"
    by (simp add: handleRemainingComment_def remainingHandlers_def)
  ultimately show "if handleIgnoreComments E ctx s = Inr (True, s')
       then b \<and> attachments s' = attachments s \<and>
            prettierIgnore s' = enclosingNode ctx # prettierIgnore s \<and>
            unignore s' = comment ctx # unignore s
       else chain_effect b (comment ctx) s s'"
    by (rule some_handler_after_ignore)
qed

text \<open>
  The theorem at four runs: the end-of-line chain attaches the comment of
  \<^verbatim>\<open>switch (k) { default: // c\<close>, \<^verbatim>\<open>{ s; } }\<close> once; the own-line chain attaches
  the comment before \<^verbatim>\<open>else\<close> once; the chain for remaining comments attaches the
  comment of \<^verbatim>\<open>(a, b/*c*/) => x\<close> nowhere and returns false, and for the
  \<^verbatim>\<open>prettier-ignore\<close> comment of the mapped type it returns true and flags the mapped
  type.
\<close>

theorem chain_attachments_witness:
  "chain_effect True switch_comment empty_store
     (commit empty_store (switch_stmt 0) Leading switch_comment None) \<and>
   chain_effect True else_own_comment empty_store
     (commit empty_store else_own_if Dangling else_own_comment None) \<and>
   chain_effect False arrow_comment empty_store empty_store \<and>
   attachments mapped_store = attachments empty_store \<and>
   prettierIgnore mapped_store = enclosingNode mapped_ctx # prettierIgnore empty_store"
proof -
  have a: "handleEndOfLineComment plain_env switch_ctx empty_store =
             Inr (True, commit empty_store (switch_stmt 0) Leading switch_comment None)"
    by code_simp
  have o: "handleOwnLineComment plain_env else_own_ctx empty_store =
             Inr (True, commit empty_store else_own_if Dangling else_own_comment None)"
    by code_simp
  have o': "handleIgnoreComments plain_env else_own_ctx empty_store \<noteq>
             Inr (True, commit empty_store else_own_if Dangling else_own_comment None)"
    by code_simp
  have b: "handleRemainingComment plain_env arrow_ctx empty_store = Inr (False, empty_store)"
    by code_simp
  have b': "handleIgnoreComments plain_env arrow_ctx empty_store \<noteq> Inr (True, empty_store)"
    by code_simp
  have c: "handleRemainingComment plain_env mapped_ctx empty_store = Inr (True, mapped_store)"
    by code_simp
  have c': "handleIgnoreComments plain_env mapped_ctx empty_store = Inr (True, mapped_store)"
    by code_simp
  have v: "comment switch_ctx = switch_comment" "comment arrow_ctx = arrow_comment"
    "comment else_own_ctx = else_own_comment"
    by (simp_all add: switch_ctx_def arrow_ctx_def else_own_ctx_def mk_ctx_def)
  from chain_attachments [where E = plain_env and ctx = switch_ctx and s = empty_store
         and b = True and s' = "commit empty_store (switch_stmt 0) Leading switch_comment None"]
       a v
  have r1: "chain_effect True switch_comment empty_store
     (commit empty_store (switch_stmt 0) Leading switch_comment None)"
    by simp
  from chain_attachments [where E = plain_env and ctx = else_own_ctx and s = empty_store
         and b = True and s' = "commit empty_store else_own_if Dangling else_own_comment None"]
       o o' v
  have r4: "chain_effect True else_own_comment empty_store
     (commit empty_store else_own_if Dangling else_own_comment None)"
    by simp
  from chain_attachments [where E = plain_env and ctx = arrow_ctx and s = empty_store
         and b = False and s' = empty_store] b b' v
  have r2: "chain_effect False arrow_comment empty_store empty_store"
    by simp
  from chain_attachments [where E = plain_env and ctx = mapped_ctx and s = empty_store
         and b = True and s' = mapped_store] c c'
  have r3: "attachments mapped_store = attachments empty_store \<and>
     prettierIgnore mapped_store = enclosingNode mapped_ctx # prettierIgnore empty_store"
    by simp
  from r1 r4 r2 r3 show ?thesis by simp
qed

section \<open>The configuration the handlers read\<close>

lemma some_handler_options:
  "list_all ignores_options hs \<Longrightarrow>
     some_handler hs E (ctx\<lparr>options := cfg\<rparr>) s = some_handler hs E ctx s"
proof (induction hs arbitrary: s)
  case Nil
  show ?case by simp
next
  case (Cons h hs)
  from Cons.prems have hs: "list_all ignores_options hs" and "ignores_options h"
    by simp_all
  then have h: "h E (ctx\<lparr>options := cfg\<rparr>) s = h E ctx s"
    by (simp add: ignores_options_def)
  from Cons.IH [OF hs] h show ?case
    by (simp split: sum.splits prod.splits)
qed

lemma chains_ignore_options:
  "list_all ignores_options ownLineHandlers"
  "list_all ignores_options endOfLineHandlers"
  "list_all ignores_options remainingHandlers"
  by (simp_all add: ownLineHandlers_def endOfLineHandlers_def remainingHandlers_def
      handleIgnoreComments_options handleLastFunctionArgComments_options
      handleMemberExpressionComments_options handleIfStatementComments_options
      handleWhileComments_options handleTryStatementComments_options
      handleClassComments_options handleForComments_options handleUnionTypeComments_options
      handleOnlyComments_options handleModuleSpecifiersComments_options
      handleAssignmentPatternComments_options handleMethodNameComments_options
      handleLabeledStatementComments_options handleBreakAndContinueStatementComments_options
      handleClosureTypeCastComments_options handleConditionalExpressionComments_options
      handleCallExpressionComments_options handlePropertyComments_options
      handleVariableDeclaratorComments_options handleSwitchDefaultCaseComments_options
      handleObjectPropertyAssignment_options handleCommentInEmptyParens_options
      handleCommentAfterArrowParams_options handleFunctionNameComments_options
      handleTSMappedTypeComments_options handleTSFunctionTrailingComments_options)

text \<open>
  C3. The decisions of the three chains do not depend on the configuration of the
  context: no handler reads it. What \<open>handleIfStatementComments\<close> reads for the comment
  before \<^verbatim>\<open>else\<close> is \<^verbatim>\<open>breakBeforeElse\<close> of the module-level options object. At
  \<^verbatim>\<open>if (1) { x; } // c\<close>, \<^verbatim>\<open>else { y; }\<close>, with an options module that has no such
  entry, a context whose configuration sets \<^verbatim>\<open>breakBeforeElse\<close> still gets the comment
  trailing on the consequent; with an options module whose entry is \<^verbatim>\<open>true\<close>, a
  context whose configuration does not set it gets the comment dangling; and with the
  options module of the program, whose entry is the descriptor of the option, a context
  whose configuration selects the cuddled style gets the comment dangling.
\<close>

theorem options_of_context_not_read:
  "handleOwnLineComment E (ctx\<lparr>options := cfg\<rparr>) s = handleOwnLineComment E ctx s \<and>
   handleEndOfLineComment E (ctx\<lparr>options := cfg\<rparr>) s = handleEndOfLineComment E ctx s \<and>
   handleRemainingComment E (ctx\<lparr>options := cfg\<rparr>) s = handleRemainingComment E ctx s \<and>
   handleEndOfLineComment unset_env else_ctx_break empty_store =
     Inr (True, commit empty_store else_cons Trailing else_comment None) \<and>
   handleEndOfLineComment break_env else_ctx empty_store =
     Inr (True, commit empty_store else_cons Dangling else_comment
                  (Some (JStr ''ifWithoutBlockAndSameLineComment''))) \<and>
   handleEndOfLineComment plain_env else_ctx_cuddled empty_store =
     Inr (True, commit empty_store else_cons Dangling else_comment
                  (Some (JStr ''ifWithoutBlockAndSameLineComment'')))"
proof -
  have a: "handleEndOfLineComment unset_env else_ctx_break empty_store =
     Inr (True, commit empty_store else_cons Trailing else_comment None)"
    by code_simp
  have b: "handleEndOfLineComment break_env else_ctx empty_store =
     Inr (True, commit empty_store else_cons Dangling else_comment
                  (Some (JStr ''ifWithoutBlockAndSameLineComment'')))"
    by code_simp
  have c: "handleEndOfLineComment plain_env else_ctx_cuddled empty_store =
     Inr (True, commit empty_store else_cons Dangling else_comment
                  (Some (JStr ''ifWithoutBlockAndSameLineComment'')))"
    by code_simp
  from a b c show ?thesis
    by (simp add: handleOwnLineComment_def handleEndOfLineComment_def
        handleRemainingComment_def some_handler_options chains_ignore_options)
qed

text \<open>
  The contexts differ in their configuration only, and are decided alike under each
  options module; the decision changes with the options module.
\<close>

theorem options_of_context_not_read_witness:
  "else_ctx_break = else_ctx\<lparr>options := JObj 2001 [(''breakBeforeElse'', JBool True)]\<rparr> \<and>
   handleEndOfLineComment unset_env else_ctx_break empty_store =
     handleEndOfLineComment unset_env else_ctx empty_store \<and>
   handleEndOfLineComment break_env else_ctx_break empty_store =
     handleEndOfLineComment break_env else_ctx empty_store \<and>
   handleEndOfLineComment plain_env else_ctx_break empty_store =
     handleEndOfLineComment plain_env else_ctx empty_store \<and>
   handleEndOfLineComment unset_env else_ctx_break empty_store \<noteq>
     handleEndOfLineComment break_env else_ctx_break empty_store"
proof -
  have u: "else_ctx_break = else_ctx\<lparr>options := JObj 2001 [(''breakBeforeElse'', JBool True)]\<rparr>"
    by (simp add: else_ctx_break_def else_ctx_def mk_ctx_def)
  note t1 = options_of_context_not_read [where E = unset_env and ctx = else_ctx
      and cfg = "JObj 2001 [(''breakBeforeElse'', JBool True)]" and s = empty_store]
  note t2 = options_of_context_not_read [where E = break_env and ctx = else_ctx
      and cfg = "JObj 2001 [(''breakBeforeElse'', JBool True)]" and s = empty_store]
  note t3 = options_of_context_not_read [where E = plain_env and ctx = else_ctx
      and cfg = "JObj 2001 [(''breakBeforeElse'', JBool True)]" and s = empty_store]
  have n: "commit empty_store else_cons Trailing else_comment None \<noteq>
           commit empty_store else_cons Dangling else_comment
             (Some (JStr ''ifWithoutBlockAndSameLineComment''))"
    by (simp add: commit_def empty_store_def)
  from t1 have e1: "handleEndOfLineComment unset_env
      (else_ctx\<lparr>options := JObj 2001 [(''breakBeforeElse'', JBool True)]\<rparr>) empty_store =
      handleEndOfLineComment unset_env else_ctx empty_store"
    by blast
  from t2 have e2: "handleEndOfLineComment break_env
      (else_ctx\<lparr>options := JObj 2001 [(''breakBeforeElse'', JBool True)]\<rparr>) empty_store =
      handleEndOfLineComment break_env else_ctx empty_store"
    by blast
  from t3 have e3: "handleEndOfLineComment plain_env
      (else_ctx\<lparr>options := JObj 2001 [(''breakBeforeElse'', JBool True)]\<rparr>) empty_store =
      handleEndOfLineComment plain_env else_ctx empty_store"
    by blast
  from t1 have v1: "handleEndOfLineComment unset_env else_ctx_break empty_store =
      Inr (True, commit empty_store else_cons Trailing else_comment None)"
    by blast
  from t2 have v2: "handleEndOfLineComment break_env else_ctx empty_store =
      Inr (True, commit empty_store else_cons Dangling else_comment
                   (Some (JStr ''ifWithoutBlockAndSameLineComment'')))"
    by blast
  from e2 v2 have v3: "handleEndOfLineComment break_env else_ctx_break empty_store =
      Inr (True, commit empty_store else_cons Dangling else_comment
                   (Some (JStr ''ifWithoutBlockAndSameLineComment'')))"
    unfolding u by simp
  from v1 v3 n have d: "handleEndOfLineComment unset_env else_ctx_break empty_store \<noteq>
     handleEndOfLineComment break_env else_ctx_break empty_store"
    by simp
  from e1 have e1': "handleEndOfLineComment unset_env else_ctx_break empty_store =
     handleEndOfLineComment unset_env else_ctx empty_store"
    unfolding u .
  from e2 have e2': "handleEndOfLineComment break_env else_ctx_break empty_store =
     handleEndOfLineComment break_env else_ctx empty_store"
    unfolding u .
  from e3 have e3': "handleEndOfLineComment plain_env else_ctx_break empty_store =
     handleEndOfLineComment plain_env else_ctx empty_store"
    unfolding u .
  from u e1' e2' e3' d show ?thesis by blast
qed

section \<open>Comments in a default case\<close>

text \<open>
  C9, as the spec states it, fails: the rule for a default case is not applied to every
  placement class. For the line comment on a line of its own in
  \<^verbatim>\<open>switch (k) { default:\<close>, \<^verbatim>\<open>// c\<close>, \<^verbatim>\<open>{ s; } }\<close> the enclosing node is a case
  without test and the following node a block, and the chain for own-line comments
  returns false and attaches nothing; so does the chain for remaining comments for the
  block comment of \<^verbatim>\<open>switch (k) { default: /*c*/ { s; } }\<close>.
\<close>

theorem switch_default_case_counterexample:
  "handleOwnLineComment plain_env switch_own_ctx empty_store = Inr (False, empty_store) \<and>
   handleRemainingComment plain_env switch_rem_ctx empty_store = Inr (False, empty_store) \<and>
   opt (enclosingNode switch_own_ctx) ''type'' = JStr ''SwitchCase'' \<and>
   \<not> truthy (opt (enclosingNode switch_own_ctx) ''test'') \<and>
   opt (followingNode switch_own_ctx) ''type'' = JStr ''BlockStatement'' \<and>
   isLineComment plain_env (comment switch_own_ctx) \<and>
   opt (enclosingNode switch_rem_ctx) ''type'' = JStr ''SwitchCase'' \<and>
   \<not> truthy (opt (enclosingNode switch_rem_ctx) ''test'')"
proof -
  have a: "handleOwnLineComment plain_env switch_own_ctx empty_store = Inr (False, empty_store)"
    by code_simp
  have b: "handleRemainingComment plain_env switch_rem_ctx empty_store = Inr (False, empty_store)"
    by code_simp
  have c: "opt (enclosingNode switch_own_ctx) ''type'' = JStr ''SwitchCase'' \<and>
   \<not> truthy (opt (enclosingNode switch_own_ctx) ''test'') \<and>
   opt (followingNode switch_own_ctx) ''type'' = JStr ''BlockStatement'' \<and>
   isLineComment plain_env (comment switch_own_ctx)"
    by code_simp
  have d: "opt (enclosingNode switch_rem_ctx) ''type'' = JStr ''SwitchCase'' \<and>
   \<not> truthy (opt (enclosingNode switch_rem_ctx) ''test'')"
    by code_simp
  from a b c d show ?thesis by simp
qed

text \<open>
  C9, amended. For an end-of-line comment enclosed by a switch case without test, with a
  following node, that is no type cast: when the following node is a block statement and
  the comment is a line comment, the comment becomes the leading comment of the block's
  first statement that is not empty (a dangling comment of the block when it has none);
  otherwise it becomes a dangling comment of the case. This is the decision of
  \<open>handleSwitchDefaultCaseComments\<close>, and of \<open>handleEndOfLineComment\<close>, whose earlier
  handlers decline (the case is no call expression and no object property for the
  imports, the program has a statement and the following node is not a program).
\<close>

theorem switch_default_case:
  assumes e: "is_node (enclosingNode ctx)" "opt (enclosingNode ctx) ''type'' = JStr ''SwitchCase''"
      "\<not> truthy (opt (enclosingNode ctx) ''test'')"
    and f: "is_node (followingNode ctx)" "opt (followingNode ctx) ''type'' \<noteq> JStr ''Program''"
    and blk: "opt (followingNode ctx) ''type'' = JStr ''BlockStatement'' \<and>
              isLineComment E (comment ctx) \<longrightarrow>
                opt (followingNode ctx) ''body'' = JArr stmts \<and> list_all is_node stmts"
    and c: "is_object (comment ctx)" "isTypeCastComment E (comment ctx) = Inr False"
    and env: "\<not> isCallExpression E (enclosingNode ctx)" "\<not> isObjectProperty E (enclosingNode ctx)"
    and prog: "is_node (ast ctx)" "opt (ast ctx) ''body'' = JArr (st # sts)"
  shows "handleSwitchDefaultCaseComments E ctx s =
           Inr (True,
             if opt (followingNode ctx) ''type'' = JStr ''BlockStatement'' \<and>
                isLineComment E (comment ctx)
             then block_first_outcome s (followingNode ctx) stmts (comment ctx)
             else commit s (enclosingNode ctx) Dangling (comment ctx) None) \<and>
         handleEndOfLineComment E ctx s = handleSwitchDefaultCaseComments E ctx s"
proof -
  from e(1) obtain ei eps where e': "enclosingNode ctx = JObj ei eps" by (rule is_nodeE)
  from f(1) obtain fi fps where f': "followingNode ctx = JObj fi fps" by (rule is_nodeE)
  from prog(1) obtain ai aps where a': "ast ctx = JObj ai aps" by (rule is_nodeE)
  have core: "opt (followingNode ctx) ''type'' = JStr ''BlockStatement'' \<Longrightarrow>
      isLineComment E (comment ctx) \<Longrightarrow>
      addBlockStatementFirstComment (followingNode ctx) (comment ctx) s =
        Inr (block_first_outcome s (followingNode ctx) stmts (comment ctx))"
    using blk f(1) c(1) by (simp add: addBlockStatementFirstComment_block)
  have h: "handleSwitchDefaultCaseComments E ctx s =
           Inr (True,
             if opt (followingNode ctx) ''type'' = JStr ''BlockStatement'' \<and>
                isLineComment E (comment ctx)
             then block_first_outcome s (followingNode ctx) stmts (comment ctx)
             else commit s (enclosingNode ctx) Dangling (comment ctx) None)"
    using e e' f' c(1) core by (auto simp: handleSwitchDefaultCaseComments_def)
  have d1: "handleClosureTypeCastComments E ctx s = Inr (False, s)"
    using c f' by (simp add: handleClosureTypeCastComments_def declined_def)
  have d2: "handleLastFunctionArgComments E ctx s = Inr (False, s)"
    using e e' by (simp add: handleLastFunctionArgComments_def declined_def
        isRealFunctionLikeNode_def)
  have d3: "handleConditionalExpressionComments E ctx s = Inr (False, s)"
    using e e' by (simp add: handleConditionalExpressionComments_def declined_def)
  have d4: "handleModuleSpecifiersComments E ctx s = Inr (False, s)"
    using e e' by (simp add: handleModuleSpecifiersComments_def declined_def)
  have d5: "handleIfStatementComments E ctx s = Inr (False, s)"
    using e e' by (simp add: handleIfStatementComments_def declined_def)
  have d6: "handleWhileComments E ctx s = Inr (False, s)"
    using e e' by (simp add: handleWhileComments_def declined_def)
  have d7: "handleTryStatementComments E ctx s = Inr (False, s)"
    using e e' by (simp add: handleTryStatementComments_def declined_def)
  have d8: "handleClassComments E ctx s = Inr (False, s)"
    using e e' by (simp add: handleClassComments_def declined_def set_has_def
        classLikeNodeTypes_def)
  have d9: "handleLabeledStatementComments E ctx s = Inr (False, s)"
    using e e' by (simp add: handleLabeledStatementComments_def declined_def)
  have d10: "handleCallExpressionComments E ctx s = Inr (False, s)"
    using env by (simp add: handleCallExpressionComments_def declined_def)
  have d11: "handlePropertyComments E ctx s = Inr (False, s)"
    using env by (simp add: handlePropertyComments_def declined_def)
  have d12: "handleOnlyComments E ctx s = Inr (False, s)"
    using prog a' e e' f f' by (simp add: handleOnlyComments_def declined_def get2_def)
  have d13: "handleVariableDeclaratorComments E ctx s = Inr (False, s)"
    using e e' by (simp add: handleVariableDeclaratorComments_def declined_def set_has_def
        assignmentLikeNodeTypes_def)
  have d14: "handleBreakAndContinueStatementComments E ctx s = Inr (False, s)"
    using e e' by (simp add: handleBreakAndContinueStatementComments_def declined_def)
  have "handleEndOfLineComment E ctx s = handleSwitchDefaultCaseComments E ctx s"
    using h d1 d2 d3 d4 d5 d6 d7 d8 d9 d10 d11 d12 d13 d14
    by (simp add: handleEndOfLineComment_def endOfLineHandlers_def)
  with h show ?thesis by simp
qed

text \<open>
  The theorem at \<^verbatim>\<open>switch (k) { default: // c\<close>, \<^verbatim>\<open>{ s; } }\<close>, where the line
  comment leads the statement \<^verbatim>\<open>s;\<close>, and at the same statement with the block comment
  \<^verbatim>\<open>/*c*/\<close> at the end of the first line, which dangles on the case.
\<close>

theorem switch_default_case_witness:
  "handleEndOfLineComment plain_env switch_ctx empty_store =
     Inr (True, commit empty_store (switch_stmt 0) Leading switch_comment None) \<and>
   handleEndOfLineComment plain_env switch_eol_block_ctx empty_store =
     Inr (True, commit empty_store (switch_case 0) Dangling switch_rem_comment None)"
proof -
  have h1: "is_node (enclosingNode switch_ctx)" by code_simp
  have h2: "opt (enclosingNode switch_ctx) ''type'' = JStr ''SwitchCase''" by code_simp
  have h3: "\<not> truthy (opt (enclosingNode switch_ctx) ''test'')" by code_simp
  have h4: "is_node (followingNode switch_ctx)" by code_simp
  have h5: "opt (followingNode switch_ctx) ''type'' \<noteq> JStr ''Program''" by code_simp
  have h6: "opt (followingNode switch_ctx) ''type'' = JStr ''BlockStatement'' \<and>
            isLineComment plain_env (comment switch_ctx) \<longrightarrow>
              opt (followingNode switch_ctx) ''body'' = JArr [switch_stmt 0] \<and>
              list_all is_node [switch_stmt 0]"
    by code_simp
  have h7: "is_object (comment switch_ctx)" by code_simp
  have h8: "isTypeCastComment plain_env (comment switch_ctx) = Inr False" by code_simp
  have h9: "\<not> isCallExpression plain_env (enclosingNode switch_ctx)" by code_simp
  have h10: "\<not> isObjectProperty plain_env (enclosingNode switch_ctx)" by code_simp
  have h11: "is_node (ast switch_ctx)" by code_simp
  have h12: "opt (ast switch_ctx) ''body'' = JArr (switch_node 0 # [])" by code_simp
  have v1: "(if opt (followingNode switch_ctx) ''type'' = JStr ''BlockStatement'' \<and>
                isLineComment plain_env (comment switch_ctx)
             then block_first_outcome empty_store (followingNode switch_ctx) [switch_stmt 0]
                    (comment switch_ctx)
             else commit empty_store (enclosingNode switch_ctx) Dangling (comment switch_ctx) None)
            = commit empty_store (switch_stmt 0) Leading switch_comment None"
    by code_simp
  have g1: "is_node (enclosingNode switch_eol_block_ctx)" by code_simp
  have g2: "opt (enclosingNode switch_eol_block_ctx) ''type'' = JStr ''SwitchCase''" by code_simp
  have g3: "\<not> truthy (opt (enclosingNode switch_eol_block_ctx) ''test'')" by code_simp
  have g4: "is_node (followingNode switch_eol_block_ctx)" by code_simp
  have g5: "opt (followingNode switch_eol_block_ctx) ''type'' \<noteq> JStr ''Program''" by code_simp
  have g6: "opt (followingNode switch_eol_block_ctx) ''type'' = JStr ''BlockStatement'' \<and>
            isLineComment plain_env (comment switch_eol_block_ctx) \<longrightarrow>
              opt (followingNode switch_eol_block_ctx) ''body'' = JArr [switch_stmt 0] \<and>
              list_all is_node [switch_stmt 0]"
    by code_simp
  have g7: "is_object (comment switch_eol_block_ctx)" by code_simp
  have g8: "isTypeCastComment plain_env (comment switch_eol_block_ctx) = Inr False" by code_simp
  have g9: "\<not> isCallExpression plain_env (enclosingNode switch_eol_block_ctx)" by code_simp
  have g10: "\<not> isObjectProperty plain_env (enclosingNode switch_eol_block_ctx)" by code_simp
  have g11: "is_node (ast switch_eol_block_ctx)" by code_simp
  have g12: "opt (ast switch_eol_block_ctx) ''body'' = JArr (switch_node 0 # [])" by code_simp
  have v2: "(if opt (followingNode switch_eol_block_ctx) ''type'' = JStr ''BlockStatement'' \<and>
                isLineComment plain_env (comment switch_eol_block_ctx)
             then block_first_outcome empty_store (followingNode switch_eol_block_ctx)
                    [switch_stmt 0] (comment switch_eol_block_ctx)
             else commit empty_store (enclosingNode switch_eol_block_ctx) Dangling
                    (comment switch_eol_block_ctx) None)
            = commit empty_store (switch_case 0) Dangling switch_rem_comment None"
    by code_simp
  from switch_default_case [OF h1 h2 h3 h4 h5 h6 h7 h8 h9 h10 h11 h12, of empty_store] v1
  have r1: "handleEndOfLineComment plain_env switch_ctx empty_store =
     Inr (True, commit empty_store (switch_stmt 0) Leading switch_comment None)"
    by simp
  from switch_default_case [OF g1 g2 g3 g4 g5 g6 g7 g8 g9 g10 g11 g12, of empty_store] v2
  have r2: "handleEndOfLineComment plain_env switch_eol_block_ctx empty_store =
     Inr (True, commit empty_store (switch_case 0) Dangling switch_rem_comment None)"
    by simp
  from r1 r2 show ?thesis by simp
qed

section \<open>Handlers that throw\<close>

text \<open>
  C2. The handlers are not total over contexts without a following node. Enclosed by a
  switch case without test, \<open>handleSwitchDefaultCaseComments\<close> reads
  \<^verbatim>\<open>followingNode.type\<close> and throws when there is no following node; enclosed by a
  union type, \<open>handleUnionTypeComments\<close> assigns \<^verbatim>\<open>followingNode.prettierIgnore\<close>
  for a \<^verbatim>\<open>prettier-ignore\<close> comment and throws when there is no following node.
\<close>

theorem handlers_throw_without_following:
  "(is_node (enclosingNode ctx) \<and> opt (enclosingNode ctx) ''type'' = JStr ''SwitchCase'' \<and>
    \<not> truthy (opt (enclosingNode ctx) ''test'') \<and> followingNode ctx = Undefined \<longrightarrow>
      handleSwitchDefaultCaseComments E ctx s = Inl TypeError) \<and>
   ((opt (enclosingNode ctx) ''type'' = JStr ''UnionTypeAnnotation'' \<or>
     opt (enclosingNode ctx) ''type'' = JStr ''TSUnionType'') \<and>
    isPrettierIgnoreComment E s (comment ctx) \<and> followingNode ctx = Undefined \<longrightarrow>
      handleUnionTypeComments E ctx s = Inl TypeError)"
proof (intro conjI impI)
  assume a: "is_node (enclosingNode ctx) \<and> opt (enclosingNode ctx) ''type'' = JStr ''SwitchCase'' \<and>
    \<not> truthy (opt (enclosingNode ctx) ''test'') \<and> followingNode ctx = Undefined"
  then obtain ei eps where "enclosingNode ctx = JObj ei eps" by (auto elim: is_nodeE)
  with a show "handleSwitchDefaultCaseComments E ctx s = Inl TypeError"
    by (simp add: handleSwitchDefaultCaseComments_def)
next
  assume "(opt (enclosingNode ctx) ''type'' = JStr ''UnionTypeAnnotation'' \<or>
     opt (enclosingNode ctx) ''type'' = JStr ''TSUnionType'') \<and>
    isPrettierIgnoreComment E s (comment ctx) \<and> followingNode ctx = Undefined"
  then show "handleUnionTypeComments E ctx s = Inl TypeError"
    by (auto simp: handleUnionTypeComments_def set_prettierIgnore_def)
qed

text \<open>
  The theorem at the end-of-line comment of \<^verbatim>\<open>switch (k) { default // c\<close>, \<^verbatim>\<open>: }\<close>,
  where the chain for end-of-line comments throws as its last handler does, and at a
  \<^verbatim>\<open>prettier-ignore\<close> comment on a line of its own after the last member of a union
  type, where the chain for own-line comments throws.
\<close>

theorem handlers_throw_without_following_witness:
  "handleSwitchDefaultCaseComments plain_env bare_ctx empty_store = Inl TypeError \<and>
   handleEndOfLineComment plain_env bare_ctx empty_store = Inl TypeError \<and>
   handleUnionTypeComments plain_env union_ctx empty_store = Inl TypeError \<and>
   handleOwnLineComment plain_env union_ctx empty_store = Inl TypeError"
proof -
  have a: "is_node (enclosingNode bare_ctx) \<and>
      opt (enclosingNode bare_ctx) ''type'' = JStr ''SwitchCase'' \<and>
      \<not> truthy (opt (enclosingNode bare_ctx) ''test'') \<and> followingNode bare_ctx = Undefined"
    by code_simp
  have b: "(opt (enclosingNode union_ctx) ''type'' = JStr ''UnionTypeAnnotation'' \<or>
      opt (enclosingNode union_ctx) ''type'' = JStr ''TSUnionType'') \<and>
      isPrettierIgnoreComment plain_env empty_store (comment union_ctx) \<and>
      followingNode union_ctx = Undefined"
    by code_simp
  have c: "handleEndOfLineComment plain_env bare_ctx empty_store = Inl TypeError"
    by code_simp
  have d: "handleOwnLineComment plain_env union_ctx empty_store = Inl TypeError"
    by code_simp
  from handlers_throw_without_following [where E = plain_env and ctx = bare_ctx
         and s = empty_store] a
  have r1: "handleSwitchDefaultCaseComments plain_env bare_ctx empty_store = Inl TypeError"
    by blast
  from handlers_throw_without_following [where E = plain_env and ctx = union_ctx
         and s = empty_store] b
  have r2: "handleUnionTypeComments plain_env union_ctx empty_store = Inl TypeError"
    by blast
  from r1 r2 c d show ?thesis by simp
qed

end
